theory Spec2Isabelle
  imports Main "HOL-Library.AList" "HOL-Library.Sublist" "HOL-Library.List_Lexorder"
    "HOL-Library.Char_ord" "HOL-Library.Multiset" "HOL-Library.FSet"
begin

section \<open>Python values, dictionaries and exceptions\<close>

text \<open>
  The processors keep their data in Python dictionaries whose values are strings or
  integers (the class docstring of \<open>FeatureProcess\<close> gives the type
  \<open>Dict[str, str|int]\<close>), and \<open>None\<close> where a value is missing.
  A dictionary is an association list: Python dictionaries iterate in insertion order,
  assigning to a key that is present keeps its position and assigning to a new key
  appends it, which is what \<open>AList.update\<close> does; \<open>map_of\<close> is the lookup.
\<close>

datatype pyval = PNone | PInt (the_int: int) | PStr (the_str: string)

datatype py_error = KeyError | TypeError | IndexError

type_synonym ('k, 'v) pydict = "('k \<times> 'v) list"

text \<open>Truthiness, as \<open>if x:\<close> and \<open>not x\<close> test it.\<close>

fun truthy :: "pyval \<Rightarrow> bool" where
  "truthy PNone = False"
| "truthy (PInt n) = (n \<noteq> 0)"
| "truthy (PStr s) = (s \<noteq> [])"

text \<open>\<open>d[k]\<close>: raises KeyError for a missing key.\<close>

definition getitem :: "('k, 'v) pydict \<Rightarrow> 'k \<Rightarrow> py_error + 'v" where
  "getitem d k = (case map_of d k of None \<Rightarrow> Inl KeyError | Some v \<Rightarrow> Inr v)"

text \<open>\<open>a + b\<close> on values: integers add, strings concatenate, anything else raises.\<close>

fun py_add :: "pyval \<Rightarrow> pyval \<Rightarrow> py_error + pyval" where
  "py_add (PInt a) (PInt b) = Inr (PInt (a + b))"
| "py_add (PStr a) (PStr b) = Inr (PStr (a @ b))"
| "py_add _ _ = Inl TypeError"

text \<open>\<open>sep.join(xs)\<close>.\<close>

fun join :: "string \<Rightarrow> string list \<Rightarrow> string" where
  "join sep [] = []"
| "join sep [x] = x"
| "join sep (x # y # ys) = x @ sep @ join sep (y # ys)"

text \<open>\<open>str(n)\<close> of an integer, as \<open>'{}'.format(n)\<close> prints it.\<close>

fun str_nat :: "nat \<Rightarrow> string" where
  "str_nat n = (if n < 10 then [char_of (48 + n)]
                else str_nat (n div 10) @ [char_of (48 + n mod 10)])"

definition str_int :: "int \<Rightarrow> string" where
  "str_int i = (if i < 0 then CHR ''-'' # str_nat (nat (- i)) else str_nat (nat i))"

section \<open>Diagnostics ledger\<close>

text \<open>
  Modelled from the spec: \<open>ErrorManager\<close> (utils/Errors.py) is not among the sources.
  Spec 3 and 4.5: an entry is \<open>{type, code, message, severity}\<close>; the ledger is
  append-only; \<open>append(message, type, isWarning, code)\<close> records an entry;
  a query returns, in order, the entries whose type matches and whose code matches,
  an empty code selecting every code; \<open>hasErrors\<close> is the existence check.
  Errors and warnings are queried separately (\<open>get_errors\<close>, \<open>get_warnings\<close>
  in \<open>SummaryInfo\<close>).
\<close>

record diag =
  err_typ :: string
  err_code :: string
  err_msg :: string
  err_is_warn :: bool

type_synonym ErrorManager = "diag list"

definition em_append :: "string \<Rightarrow> string \<Rightarrow> bool \<Rightarrow> string \<Rightarrow> ErrorManager \<Rightarrow> ErrorManager" where
  "em_append msg t w c es = es @ [\<lparr>err_typ = t, err_code = c, err_msg = msg, err_is_warn = w\<rparr>]"

definition em_query :: "bool \<Rightarrow> string \<Rightarrow> string \<Rightarrow> ErrorManager \<Rightarrow> string list" where
  "em_query w t c es =
     map err_msg (filter (\<lambda>e. err_is_warn e = w \<and> err_typ e = t \<and> (c = [] \<or> err_code e = c)) es)"

definition em_get_errors :: "string \<Rightarrow> string \<Rightarrow> ErrorManager \<Rightarrow> string list" where
  "em_get_errors t c es = em_query False t c es"

definition em_get_warnings :: "string \<Rightarrow> string \<Rightarrow> ErrorManager \<Rightarrow> string list" where
  "em_get_warnings t c es = em_query True t c es"

section \<open>SummaryInfo\<close>

record process_line =
  line :: string
  status :: string

record SummaryInfo =
  prefix :: string
  input_params :: "(string, pyval) pydict"
  process_lines :: "process_line list"
  errors :: ErrorManager

definition set_input_param :: "string \<Rightarrow> pyval \<Rightarrow> SummaryInfo \<Rightarrow> SummaryInfo" where
  "set_input_param param_name param_value s =
     s\<lparr>input_params := AList.update param_name param_value (input_params s)\<rparr>"

definition get_input_param :: "string \<Rightarrow> SummaryInfo \<Rightarrow> py_error + pyval" where
  "get_input_param param_name s = getitem (input_params s) param_name"

definition set_input_params :: "(string, pyval) pydict \<Rightarrow> SummaryInfo \<Rightarrow> SummaryInfo" where
  "set_input_params params s =
     fold (\<lambda>param_name s'. case map_of params param_name of
                              None \<Rightarrow> s'
                            | Some v \<Rightarrow> set_input_param param_name v s')
          (map fst params) s"

text \<open>
  \<open>set_process_line\<close>. The template comes from the configuration
  (\<open>config.get_process_msg\<close>) and is expanded by \<open>str.format\<close>; neither is code of
  the repository, so both are parameters. \<open>str.format\<close> raises when the template names
  an argument that was not given; then nothing has been appended.
\<close>

definition set_process_line ::
  "(string \<Rightarrow> string) \<Rightarrow> (string \<Rightarrow> (string, pyval) pydict \<Rightarrow> py_error + string) \<Rightarrow>
   string \<Rightarrow> bool \<Rightarrow> (string, pyval) pydict \<Rightarrow> SummaryInfo \<Rightarrow> py_error + SummaryInfo" where
  "set_process_line get_process_msg str_format msg_name check_error kwargs s =
     (let msg_info = get_process_msg msg_name;
          status = (if check_error then ''ERROR'' else ''OK'');
          args_dict = fold (\<lambda>(k, v) d. AList.update k v d) kwargs []
      in case str_format msg_info args_dict of
           Inl e \<Rightarrow> Inl e
         | Inr msg_info' \<Rightarrow>
             Inr (s\<lparr>process_lines := process_lines s @ [\<lparr>line = msg_info', status = status\<rparr>]\<rparr>))"

text \<open>
  \<open>get_process_lines\<close>. Without the presentation layer it returns the stored list;
  with it, every line is rendered through \<open>Utils.insert_ui\<close> (external, a parameter),
  one rendered line per stored line, in the stored order.
\<close>

datatype ui_color = darkred | green | red

definition get_process_lines ::
  "(string \<Rightarrow> ui_color \<Rightarrow> string) \<Rightarrow> bool \<Rightarrow> SummaryInfo \<Rightarrow> process_line list" where
  "get_process_lines insert_ui with_ui s =
     (if with_ui then
        map (\<lambda>l. let msg_info = insert_ui (line l) darkred;
                     st = ''['' @ status l @ '']'';
                     msg_status = (if status l = ''OK'' then insert_ui st green
                                   else insert_ui st red)
                 in \<lparr>line = msg_info, status = msg_status\<rparr>)
            (process_lines s)
      else process_lines s)"

definition print_process_line :: "SummaryInfo \<Rightarrow> string" where
  "print_process_line s =
     concat (map (\<lambda>l. ''  '' @ line l @ ''  ['' @ status l @ ''] '' @ [CHR 0x0A])
                 (process_lines s))"

definition get_errors :: "string \<Rightarrow> SummaryInfo \<Rightarrow> string list" where
  "get_errors c s = em_get_errors (prefix s) c (errors s)"

definition get_warnings :: "string \<Rightarrow> SummaryInfo \<Rightarrow> string list" where
  "get_warnings c s = em_get_warnings (prefix s) c (errors s)"

text \<open>
  \<open>append_error(msg, msgs, typ, is_warn, code)\<close>: an absent or empty \<open>typ\<close> is
  replaced by the prefix; a non-empty \<open>msg\<close> is recorded, otherwise every message of
  a non-empty \<open>msgs\<close>. Both branches on \<open>is_warn\<close> pass the same severity on.
\<close>

definition append_error ::
  "string option \<Rightarrow> string list option \<Rightarrow> string option \<Rightarrow> bool \<Rightarrow> string \<Rightarrow>
   SummaryInfo \<Rightarrow> SummaryInfo" where
  "append_error msg msgs t w c s =
     (let t' = (case t of None \<Rightarrow> prefix s | Some x \<Rightarrow> if x = [] then prefix s else x)
      in case msg of
           Some m \<Rightarrow>
             (if m \<noteq> [] then s\<lparr>errors := em_append m t' w c (errors s)\<rparr>
              else case msgs of
                     None \<Rightarrow> s
                   | Some ms \<Rightarrow> s\<lparr>errors := fold (\<lambda>m' es. em_append m' t' w c es) ms (errors s)\<rparr>)
         | None \<Rightarrow>
             (case msgs of
                None \<Rightarrow> s
              | Some ms \<Rightarrow> s\<lparr>errors := fold (\<lambda>m' es. em_append m' t' w c es) ms (errors s)\<rparr>))"

text \<open>The state-changing operations of \<open>SummaryInfo\<close>, as a caller may issue them.\<close>

datatype summary_op =
    SetInputParam string pyval
  | SetInputParams "(string, pyval) pydict"
  | SetProcessLine string bool "(string, pyval) pydict"
  | AppendError "string option" "string list option" "string option" bool string

text \<open>An operation that raises leaves the object as it was.\<close>

fun summary_step ::
  "(string \<Rightarrow> string) \<Rightarrow> (string \<Rightarrow> (string, pyval) pydict \<Rightarrow> py_error + string) \<Rightarrow>
   summary_op \<Rightarrow> SummaryInfo \<Rightarrow> SummaryInfo" where
  "summary_step gm fmt (SetInputParam k v) s = set_input_param k v s"
| "summary_step gm fmt (SetInputParams ps) s = set_input_params ps s"
| "summary_step gm fmt (SetProcessLine n f kw) s =
     (case set_process_line gm fmt n f kw s of Inl e \<Rightarrow> s | Inr s' \<Rightarrow> s')"
| "summary_step gm fmt (AppendError m ms t w c) s = append_error m ms t w c s"

definition summary_run ::
  "(string \<Rightarrow> string) \<Rightarrow> (string \<Rightarrow> (string, pyval) pydict \<Rightarrow> py_error + string) \<Rightarrow>
   summary_op list \<Rightarrow> SummaryInfo \<Rightarrow> SummaryInfo" where
  "summary_run gm fmt ops s = fold (summary_step gm fmt) ops s"

section \<open>Sequencing of steps that may raise\<close>

fun map_err :: "('a \<Rightarrow> 'e + 'b) \<Rightarrow> 'a list \<Rightarrow> 'e + 'b list" where
  "map_err f [] = Inr []"
| "map_err f (x # xs) =
     (case f x of
        Inl e \<Rightarrow> Inl e
      | Inr y \<Rightarrow> (case map_err f xs of Inl e \<Rightarrow> Inl e | Inr ys \<Rightarrow> Inr (y # ys)))"

fun fold_err :: "('a \<Rightarrow> 's \<Rightarrow> 'e + 's) \<Rightarrow> 'a list \<Rightarrow> 's \<Rightarrow> 'e + 's" where
  "fold_err f [] s = Inr s"
| "fold_err f (x # xs) s = (case f x s of Inl e \<Rightarrow> Inl e | Inr s' \<Rightarrow> fold_err f xs s')"

text \<open>\<open>xs[i]\<close> and \<open>range(n)\<close>.\<close>

definition py_index :: "'a list \<Rightarrow> int \<Rightarrow> py_error + 'a" where
  "py_index xs i =
     (let j = (if i < 0 then i + int (length xs) else i)
      in if 0 \<le> j \<and> j < int (length xs) then Inr (xs ! nat j) else Inl IndexError)"

definition py_range :: "int \<Rightarrow> int list" where
  "py_range n = map int [0..<nat n]"

text \<open>\<open>dict(pairs)\<close>: a later pair with a key already seen replaces its value.\<close>

definition py_dict :: "('k \<times> 'v) list \<Rightarrow> ('k, 'v) pydict" where
  "py_dict pairs = fold (\<lambda>(k, v) d. AList.update k v d) pairs []"

text \<open>
  \<open>sorted(xs, key=f, reverse=True)\<close>. The key of every element is computed first, in
  order, so the first key that raises decides the error. A list of at most one element
  is returned without any comparison. Otherwise the keys are compared with \<open><\<close>, which
  is defined between two integers and between two strings and raises TypeError for any
  other pair; a sort of two or more elements has to compare keys of different kinds, or
  \<open>None\<close>, if there are any. The sort is stable, and with \<open>reverse=True\<close> it is the
  stable ascending sort of the reversed list, reversed again, so that elements with equal
  keys keep their original order. Numbers are modelled as integers.
\<close>

definition py_sorted_reverse :: "('a \<Rightarrow> py_error + pyval) \<Rightarrow> 'a list \<Rightarrow> py_error + 'a list" where
  "py_sorted_reverse f xs =
     (case map_err (\<lambda>x. case f x of Inl e \<Rightarrow> Inl e | Inr k \<Rightarrow> Inr (x, k)) xs of
        Inl e \<Rightarrow> Inl e
      | Inr ks \<Rightarrow>
          if length ks \<le> 1 then Inr xs
          else if list_all (\<lambda>(x, k). is_PInt k) ks
            then Inr (map fst (rev (sort_key (\<lambda>(x, k). the_int k) (rev ks))))
          else if list_all (\<lambda>(x, k). is_PStr k) ks
            then Inr (map fst (rev (sort_key (\<lambda>(x, k). the_str k) (rev ks))))
          else Inl TypeError)"

section \<open>FeatureProcess: the cell aggregator\<close>

text \<open>
  Modelled from the spec: the \<open>Cell\<close> named tuple is declared outside the sources;
  spec 3 gives its identity key \<open>(row, col)\<close>, the two fields the code reads.
\<close>

record cell =
  row :: int
  col :: int

text \<open>
  The data of a fragment is a Python dictionary, an object. \<open>_set_cell\<close> stores the
  dictionary it is given, not a copy; \<open>_cell_order_criteria_default\<close> returns the
  stored dictionaries themselves; and the list that \<open>_set_cell_by_criteria\<close> puts
  under \<open>'data'\<close> holds them too. A dictionary is therefore known by its reference,
  and the store gives the dictionary that each reference denotes. \<open>+=\<close> on a field of
  a stored dictionary changes the store, and with it what every holder of the reference
  reads: the caller, \<open>self.cells\<close> and \<open>self.cell_ids\<close>.
\<close>

type_synonym data = "(string, pyval) pydict"

type_synonym ref = nat

type_synonym store = "ref \<Rightarrow> data"

type_synonym cells_dict = "(cell, (string, ref) pydict) pydict"

text \<open>
  An entry of \<open>cell_ids\<close>, the dictionary built by \<open>_set_cell_by_criteria\<close>:
  \<open>'cell_id'\<close> is a value copied from the winner, \<open>'data'\<close> the list of the
  references of the ordered candidates.
\<close>

record cell_id_data =
  number_of_data :: nat
  cell_id :: pyval
  rec_row :: int
  rec_col :: int
  rec_data :: "ref list"

record map_info =
  map_name :: string
  imported :: bool

text \<open>
  The fields of \<open>FeatureProcess\<close> the modelled methods use, with the store of the data
  dictionaries (\<open>objects\<close>) that the processor and its caller share.
  \<open>_features_by_map\<close> maps a feature name to a Python set of map names.
  \<open>self._err\<close> and \<open>self.summary.errors\<close> are the same \<open>ErrorManager\<close> object, kept
  once, in the summary. \<open>class_name\<close> is \<open>self.__class__.__name__\<close>, and
  \<open>feature_type\<close> is \<open>self._feature_type\<close>, which the constructor sets to
  \<open>config.type_names[self.__class__.__name__]\<close>.
\<close>

record FeatureProcess =
  objects :: store
  cells :: cells_dict
  cell_ids :: "(cell, cell_id_data) pydict"
  map_names :: "(string, map_info) pydict"
  features_by_map :: "(string, string fset) pydict"
  feature_type :: string
  class_name :: string
  summary :: SummaryInfo

text \<open>
  \<open>_cell_order_criteria_default(cell, cells_dict, by_field)\<close>. The key of an item is
  the metric field of the dictionary its reference denotes; the result is the list of the
  references, sorted.
\<close>

definition cell_order_criteria_default ::
  "store \<Rightarrow> cell \<Rightarrow> cells_dict \<Rightarrow> string \<Rightarrow> py_error + ref list" where
  "cell_order_criteria_default h c cs by_field =
     (case getitem cs c of
        Inl e \<Rightarrow> Inl e
      | Inr area_targets \<Rightarrow>
          (case py_sorted_reverse (\<lambda>x. getitem (h (snd x)) by_field) area_targets of
             Inl e \<Rightarrow> Inl e
           | Inr area_targets_sorted \<Rightarrow> Inr (map snd area_targets_sorted)))"

text \<open>
  \<open>_set_cell(cell, area_name, data, by_field)\<close>, \<open>data\<close> being the reference \<open>d\<close>.
  For a pair already present, \<open>data[by_field]\<close> is read first, then the field of the
  stored dictionary is read, added to and written back, in place: \<open>self.cells\<close> keeps
  the reference it had and the store changes at that reference. Otherwise the reference
  \<open>d\<close> itself is stored.
\<close>

definition set_cell ::
  "cell \<Rightarrow> string \<Rightarrow> ref \<Rightarrow> string \<Rightarrow> FeatureProcess \<Rightarrow> py_error + FeatureProcess" where
  "set_cell c area_name d by_field s =
     (case map_of (cells s) c of
        Some targets \<Rightarrow>
          (case map_of targets area_name of
             Some stored \<Rightarrow>
               (case getitem (objects s d) by_field of
                  Inl e \<Rightarrow> Inl e
                | Inr area_area \<Rightarrow>
                    (case getitem (objects s stored) by_field of
                       Inl e \<Rightarrow> Inl e
                     | Inr current \<Rightarrow>
                         (case py_add current area_area of
                            Inl e \<Rightarrow> Inl e
                          | Inr summed \<Rightarrow>
                              Inr (s\<lparr>objects :=
                                     (objects s)
                                       (stored := AList.update by_field summed
                                                    (objects s stored))\<rparr>))))
           | None \<Rightarrow>
               Inr (s\<lparr>cells := AList.update c (AList.update area_name d targets) (cells s)\<rparr>))
      | None \<Rightarrow> Inr (s\<lparr>cells := AList.update c [(area_name, d)] (cells s)\<rparr>))"

text \<open>
  \<open>_set_cell_by_criteria(criteria_func, by_field)\<close>: one pass over the cells of
  \<open>self.cells\<close>, in their order; each writes its entry of \<open>cell_ids\<close>.
  \<open>area_targets_ordered[0]\<close> raises IndexError on an empty list and \<open>['cell_id']\<close>
  raises KeyError when the winner has no such field.
\<close>

definition cell_id_entry ::
  "(store \<Rightarrow> cell \<Rightarrow> cells_dict \<Rightarrow> string \<Rightarrow> py_error + ref list) \<Rightarrow>
   string \<Rightarrow> store \<Rightarrow> cells_dict \<Rightarrow> cell \<Rightarrow> py_error + cell_id_data" where
  "cell_id_entry criteria_func by_field h cs c =
     (case criteria_func h c cs by_field of
        Inl e \<Rightarrow> Inl e
      | Inr area_targets_ordered \<Rightarrow>
          (case py_index area_targets_ordered 0 of
             Inl e \<Rightarrow> Inl e
           | Inr winner \<Rightarrow>
               (case getitem (h winner) ''cell_id'' of
                  Inl e \<Rightarrow> Inl e
                | Inr cid \<Rightarrow>
                    Inr \<lparr>number_of_data = length area_targets_ordered,
                         cell_id = cid,
                         rec_row = row c,
                         rec_col = col c,
                         rec_data = area_targets_ordered\<rparr>)))"

definition set_cell_id ::
  "(store \<Rightarrow> cell \<Rightarrow> cells_dict \<Rightarrow> string \<Rightarrow> py_error + ref list) \<Rightarrow>
   string \<Rightarrow> store \<Rightarrow> cells_dict \<Rightarrow> cell \<Rightarrow>
   (cell, cell_id_data) pydict \<Rightarrow> py_error + (cell, cell_id_data) pydict" where
  "set_cell_id criteria_func by_field h cs c ids =
     (case cell_id_entry criteria_func by_field h cs c of
        Inl e \<Rightarrow> Inl e
      | Inr r \<Rightarrow> Inr (AList.update c r ids))"

definition set_cell_by_criteria ::
  "(store \<Rightarrow> cell \<Rightarrow> cells_dict \<Rightarrow> string \<Rightarrow> py_error + ref list) \<Rightarrow>
   string \<Rightarrow> FeatureProcess \<Rightarrow> py_error + FeatureProcess" where
  "set_cell_by_criteria criteria_func by_field s =
     (case fold_err (set_cell_id criteria_func by_field (objects s) (cells s))
             (map fst (cells s)) (cell_ids s) of
        Inl e \<Rightarrow> Inl e
      | Inr ids \<Rightarrow> Inr (s\<lparr>cell_ids := ids\<rparr>))"

definition get_cell_keys :: "FeatureProcess \<Rightarrow> cell list" where
  "get_cell_keys s = (if cell_ids s \<noteq> [] then map fst (cell_ids s) else [])"

definition get_cell_id_data :: "cell \<Rightarrow> FeatureProcess \<Rightarrow> cell_id_data option" where
  "get_cell_id_data c s = map_of (cell_ids s) c"

text \<open>
  \<open>get_cell_data_by_map(map_name, cell)\<close>. \<open>d['map_name'] == map_name\<close> compares a
  stored value with a string; \<open>d['map_name']\<close> raises KeyError when the field is
  absent. The result lists the references of the selected dictionaries.
\<close>

definition get_cell_data_by_map :: "string \<Rightarrow> cell \<Rightarrow> FeatureProcess \<Rightarrow> py_error + ref list" where
  "get_cell_data_by_map mname c s =
     (case map_of (cell_ids s) c of
        None \<Rightarrow> Inr []
      | Some r \<Rightarrow>
          (case map_err (\<lambda>d. case getitem (objects s d) ''map_name'' of
                               Inl e \<Rightarrow> Inl e
                             | Inr v \<Rightarrow> Inr (d, v = PStr mname)) (rec_data r) of
             Inl e \<Rightarrow> Inl e
           | Inr flagged \<Rightarrow> Inr (map fst (filter snd flagged))))"

section \<open>FeatureProcess: diagnostics\<close>

text \<open>
  Modelled from the spec: \<open>append_error\<close>, \<open>check_errors\<close> and \<open>get_errors\<close> of
  \<open>FeatureProcess\<close> are inherited from \<open>MapFileManagerProtocol\<close> (utils/Protocols.py),
  which is not among the sources. By spec 4.5 and 7, appending records the message with
  the given type, severity and code; the query returns the error messages of the
  processor's feature type filtered by code; and the check is the existence of such a
  message. Every modelled call of \<open>append_error\<close> passes one message and its type.
\<close>

definition fp_append_error ::
  "string \<Rightarrow> string \<Rightarrow> bool \<Rightarrow> string \<Rightarrow> FeatureProcess \<Rightarrow> FeatureProcess" where
  "fp_append_error msg t w c s =
     s\<lparr>summary := (summary s)\<lparr>errors := em_append msg t w c (errors (summary s))\<rparr>\<rparr>"

definition fp_get_errors :: "string \<Rightarrow> FeatureProcess \<Rightarrow> string list" where
  "fp_get_errors c s = em_get_errors (feature_type s) c (errors (summary s))"

definition check_errors :: "string \<Rightarrow> FeatureProcess \<Rightarrow> bool" where
  "check_errors c s = (fp_get_errors c s \<noteq> [])"

section \<open>FeatureProcess: the record builder\<close>

text \<open>\<open>str(v)\<close> of a value, as \<open>'{}'.format(v)\<close> prints it.\<close>

fun py_str :: "pyval \<Rightarrow> string" where
  "py_str PNone = ''None''"
| "py_str (PInt n) = str_int n"
| "py_str (PStr s) = s"

text \<open>\<open>d.get(k)\<close>.\<close>

definition dict_get :: "(string, pyval) pydict \<Rightarrow> string \<Rightarrow> pyval" where
  "dict_get d k = (case map_of d k of None \<Rightarrow> PNone | Some v \<Rightarrow> v)"

text \<open>The warning of \<open>get_data_to_save\<close> for a cell with more values than columns.\<close>

definition capacity_msg :: "cell \<Rightarrow> string \<Rightarrow> nat \<Rightarrow> int \<Rightarrow> string" where
  "capacity_msg c main_map n cols_number =
     ''Error en la [celda=(r='' @ str_int (row c) @ '', c='' @ str_int (col c) @
     '')] para mapa ['' @ main_map @ '']. El numero a almacenar es ['' @ str_int (int n) @
     ''], pero no debe ser mayor que ['' @ str_int cols_number @
     '']. Se considera s'' @ [CHR 0xF3] @ ''lo ['' @ str_int cols_number @ '']''"

definition extra_value_msg :: "string \<Rightarrow> cell \<Rightarrow> pyval \<Rightarrow> string" where
  "extra_value_msg mname c v =
     ''El mapa ['' @ mname @ ''] tiene mas de un valor en la [celda: ('' @ str_int (row c) @
     '', '' @ str_int (col c) @ '')]. Se considera el primero: ['' @ py_str v @ '']''"

text \<open>
  \<open>get_data_to_save(cell, main_data=True)\<close>. The name of the main map, the export
  column names and the number of columns come from the protocol class and the
  configuration, which are not among the sources: they are the parameters \<open>main_map\<close>,
  \<open>col_names\<close> and \<open>cols_number\<close>. The type of the warning is
  \<open>config.type_names[self.__class__.__name__]\<close>, the value of \<open>feature_type\<close>.
  \<open>col_data[i]['name']\<close> reads the dictionary that the reference denotes.
\<close>

definition main_data_to_save ::
  "string \<Rightarrow> string list \<Rightarrow> int \<Rightarrow> cell \<Rightarrow> FeatureProcess \<Rightarrow>
   py_error + ((string, pyval) pydict \<times> FeatureProcess)" where
  "main_data_to_save main_map col_names cols_number c s =
     (case get_cell_data_by_map main_map c s of
        Inl e \<Rightarrow> Inl e
      | Inr col_data \<Rightarrow>
          if col_data \<noteq> [] then
            (let s' = (if int (length col_data) > cols_number \<and>
                          class_name s = ''DemandSiteProcess''
                       then fp_append_error
                              (capacity_msg c main_map (length col_data) cols_number)
                              (feature_type s) True [] s
                       else s);
                 values_to_save = min cols_number (int (length col_data))
             in case map_err
                       (\<lambda>i. case py_index col_names i of
                               Inl e \<Rightarrow> Inl e
                             | Inr cn \<Rightarrow>
                                 (case py_index col_data i of
                                    Inl e \<Rightarrow> Inl e
                                  | Inr d \<Rightarrow>
                                      (case getitem (objects s d) ''name'' of
                                         Inl e \<Rightarrow> Inl e
                                       | Inr v \<Rightarrow> Inr (cn, v))))
                       (py_range values_to_save) of
                  Inl e \<Rightarrow> Inl e
                | Inr pairs \<Rightarrow>
                    (case fold_err
                            (\<lambda>j dat. case py_index col_names (cols_number - (j + 1)) of
                                        Inl e \<Rightarrow> Inl e
                                      | Inr cn \<Rightarrow> Inr (AList.update cn (PStr []) dat))
                            (py_range (cols_number - values_to_save)) (py_dict pairs) of
                       Inl e \<Rightarrow> Inl e
                     | Inr dat \<Rightarrow> Inr (dat, s')))
          else
            (case map_err (\<lambda>i. case py_index col_names i of
                                  Inl e \<Rightarrow> Inl e
                                | Inr cn \<Rightarrow> Inr (cn, PStr []))
                    (py_range cols_number) of
               Inl e \<Rightarrow> Inl e
             | Inr pairs \<Rightarrow> Inr (py_dict pairs, s)))"

text \<open>
  The branch for the secondary maps: \<open>info_col_names\<close> are the informative column
  names and \<open>secondary_maps\<close> the names of the imported secondary maps, in their fixed
  order. The right-hand side of the assignment is evaluated before the column name.
\<close>

definition info_data_to_save ::
  "string list \<Rightarrow> string list \<Rightarrow> cell \<Rightarrow> FeatureProcess \<Rightarrow>
   py_error + ((string, pyval) pydict \<times> FeatureProcess)" where
  "info_data_to_save info_col_names secondary_maps c s =
     fold_err
       (\<lambda>(ind, mname) (dat, st).
          case get_cell_data_by_map mname c st of
            Inl e \<Rightarrow> Inl e
          | Inr cell_data \<Rightarrow>
              (case (case cell_data of
                       [] \<Rightarrow> Inr (PStr [])
                     | d # _ \<Rightarrow> getitem (objects st d) ''name'') of
                 Inl e \<Rightarrow> Inl e
               | Inr v \<Rightarrow>
                   (case py_index info_col_names ind of
                      Inl e \<Rightarrow> Inl e
                    | Inr cn \<Rightarrow>
                        Inr (AList.update cn v dat,
                             if length cell_data > 1
                             then fp_append_error (extra_value_msg mname c v)
                                    (feature_type st) False [] st
                             else st))))
       (zip (map int [0..<length secondary_maps]) secondary_maps) ([], s)"

definition get_data_to_save ::
  "string \<Rightarrow> string list \<Rightarrow> int \<Rightarrow> string list \<Rightarrow> string list \<Rightarrow> cell \<Rightarrow> bool \<Rightarrow>
   FeatureProcess \<Rightarrow> py_error + ((string, pyval) pydict \<times> FeatureProcess)" where
  "get_data_to_save main_map col_names cols_number info_col_names secondary_maps c main_data s =
     (if main_data then main_data_to_save main_map col_names cols_number c s
      else info_data_to_save info_col_names secondary_maps c s)"

section \<open>FeatureProcess: the cross-map name validator\<close>

text \<open>
  What the processor asks of its surroundings: the message templates of the
  configuration and \<open>str.format\<close>; the two abstract methods \<open>set_data_from_geo\<close> and
  \<open>get_feature_id_by_name\<close>, implemented by the processor classes, the second being
  the query of the reference topology for the element id of a name (spec 6), with
  \<open>None\<close> for no element; the areas of an imported vector map, each with its
  category and the value of the main field (a name column), either of which may be
  missing; and the order in which the interpreter iterates a set of strings
  (\<open>set_iter\<close>): the order of the hash table, which the program does not choose and
  which differs from run to run with the hash seed.
\<close>

record collaborators =
  get_process_msg :: "string \<Rightarrow> string"
  str_format :: "string \<Rightarrow> (string, pyval) pydict \<Rightarrow> py_error + string"
  set_data_from_geo :: "FeatureProcess \<Rightarrow> FeatureProcess"
  get_feature_id_by_name :: "string \<Rightarrow> pyval"
  viter_areas :: "string \<Rightarrow> (int option \<times> string option) list"
  set_iter :: "string fset \<Rightarrow> string list"

text \<open>
  One step of the scan: \<open>s.add(map_name)\<close> on the set of a name that is present, a
  new one-element set otherwise.
\<close>

definition add_feature_name :: "string \<Rightarrow> string \<Rightarrow> FeatureProcess \<Rightarrow> FeatureProcess" where
  "add_feature_name feature_name mname s =
     (case map_of (features_by_map s) feature_name of
        Some ms \<Rightarrow>
          s\<lparr>features_by_map := AList.update feature_name (finsert mname ms) (features_by_map s)\<rparr>
      | None \<Rightarrow>
          s\<lparr>features_by_map := AList.update feature_name {|mname|} (features_by_map s)\<rparr>)"

definition set_feature_names_in_maps ::
  "(string \<Rightarrow> (int option \<times> string option) list) \<Rightarrow> bool \<Rightarrow> FeatureProcess \<Rightarrow> FeatureProcess" where
  "set_feature_names_in_maps areas only_imported s =
     (let maps = (if only_imported then filter (\<lambda>(k, info). imported info) (map_names s)
                  else map_names s)
      in fold (\<lambda>(map_key, info) st.
                 fold (\<lambda>(cat, attr) st'.
                         case cat of
                           None \<Rightarrow> st'
                         | Some _ \<Rightarrow>
                             (case attr of
                                None \<Rightarrow> st'
                              | Some feature_name \<Rightarrow>
                                  if feature_name = [] then st'
                                  else add_feature_name feature_name (map_name info) st'))
                      (areas (map_name info)) st)
              maps s)"

text \<open>
  The opening step of both checks: \<open>set_data_from_geo\<close>, then the scan of the
  imported maps if the name index is still empty.
\<close>

definition load_feature_names :: "collaborators \<Rightarrow> FeatureProcess \<Rightarrow> FeatureProcess" where
  "load_feature_names env s =
     (let s1 = set_data_from_geo env s
      in if length (features_by_map s1) = 0
         then set_feature_names_in_maps (viter_areas env) True s1
         else s1)"

text \<open>
  The two messages; \<open>ms\<close> is the set of the maps of the name, in the order in which
  \<open>', '.join\<close> iterates it.
\<close>

definition not_in_geo_msg :: "string \<Rightarrow> string list \<Rightarrow> string" where
  "not_in_geo_msg feature_name ms =
     ''El nombre ['' @ feature_name @ ''] en los mapas ['' @ join '', '' ms @
     ''] no existe en las geometrias bases de arcos y nodos.''"

definition many_maps_msg :: "string \<Rightarrow> string list \<Rightarrow> string" where
  "many_maps_msg feature_name ms =
     ''El nombre ['' @ feature_name @ ''] se encuentra en mas de un mapa (['' @
     join '', '' ms @ '']) al mismo tiempo.''"

text \<open>
  The closing step of both checks: the process line of the check, then the pair that is
  returned. The process line can raise, in \<open>str.format\<close>.
\<close>

definition finish_check ::
  "collaborators \<Rightarrow> string \<Rightarrow> string \<Rightarrow> FeatureProcess \<Rightarrow>
   py_error + ((bool \<times> string list) \<times> FeatureProcess)" where
  "finish_check env msg_name c s =
     (case set_process_line (get_process_msg env) (str_format env) msg_name
             (check_errors c s) [] (summary s) of
        Inl e \<Rightarrow> Inl e
      | Inr sm \<Rightarrow>
          (let s' = s\<lparr>summary := sm\<rparr> in Inr ((check_errors c s', fp_get_errors c s'), s')))"

text \<open>
  \<open>check_names_with_geo\<close> and \<open>check_names_between_maps\<close>. The loops run over the
  keys of \<open>_features_by_map\<close> and look each key up; the dictionary does not change in
  the loop, so the loops run here over its items.
\<close>

definition check_names_with_geo ::
  "collaborators \<Rightarrow> FeatureProcess \<Rightarrow> py_error + ((bool \<times> string list) \<times> FeatureProcess)" where
  "check_names_with_geo env s =
     (let s2 = load_feature_names env s;
          s3 = fold (\<lambda>(feature_name, ms) st.
                       if \<not> truthy (get_feature_id_by_name env feature_name)
                       then fp_append_error (not_in_geo_msg feature_name (set_iter env ms))
                              (feature_type st) False ''10'' st
                       else st)
                    (features_by_map s2) s2
      in finish_check env ''check_names_with_geo'' ''10'' s3)"

definition check_names_between_maps ::
  "collaborators \<Rightarrow> FeatureProcess \<Rightarrow> py_error + ((bool \<times> string list) \<times> FeatureProcess)" where
  "check_names_between_maps env s =
     (let s2 = load_feature_names env s;
          check_maps = filter (\<lambda>(f_name, ms). fcard ms > 1) (features_by_map s2);
          s3 = fold (\<lambda>(feature_name, ms) st.
                       fp_append_error (many_maps_msg feature_name (set_iter env ms))
                         (feature_type st) False ''11'' st)
                    check_maps s2
      in finish_check env ''check_names_between_maps'' ''11'' s3)"

section \<open>SuperpositionCheck\<close>

text \<open>
  A node and an arc of the reference topology, with the keys the check reads. An id may
  be missing (\<open>None\<close>). The base class \<open>Check\<close> is not among the sources; it provides
  the list \<open>errors\<close> and \<open>get_cell_feature_names\<close>, which is a parameter of
  \<open>cell_check_operation\<close>.
\<close>

record node =
  type_id :: int
  node_name :: string

record arc =
  src_id :: pyval
  dst_id :: pyval

record SuperpositionCheck =
  base_feature :: string
  secondary_feature :: string
  base_feature_type_id :: int
  secondary_feature_type_id :: int
  connections :: "(string, string list) pydict"
  nodes :: "(pyval, node) pydict"
  connection_error :: "(string, string fset) pydict"
  sc_errors :: "string list"

definition superposition_init ::
  "string \<Rightarrow> string \<Rightarrow> (string, int) pydict \<Rightarrow> py_error + SuperpositionCheck" where
  "superposition_init base secondary nodes_type_id =
     (case getitem nodes_type_id base of
        Inl e \<Rightarrow> Inl e
      | Inr b \<Rightarrow>
          (case getitem nodes_type_id secondary of
             Inl e \<Rightarrow> Inl e
           | Inr t \<Rightarrow>
               Inr \<lparr>base_feature = base, secondary_feature = secondary,
                    base_feature_type_id = b, secondary_feature_type_id = t,
                    connections = [], nodes = [], connection_error = [], sc_errors = []\<rparr>))"

definition add_error :: "string \<Rightarrow> string \<Rightarrow> SuperpositionCheck \<Rightarrow> SuperpositionCheck" where
  "add_error base_element super_element s =
     (let ce = (case map_of (connection_error s) base_element of
                  Some xs \<Rightarrow> if xs \<noteq> {||} then connection_error s
                             else AList.update base_element {||} (connection_error s)
                | None \<Rightarrow> AList.update base_element {||} (connection_error s));
          cur = (case map_of ce base_element of Some xs \<Rightarrow> xs | None \<Rightarrow> {||})
      in s\<lparr>connection_error := AList.update base_element (finsert super_element cur) ce\<rparr>)"

text \<open>
  \<open>make_errors_dict\<close>: one message for each base element with errors. The message
  prints a Python set; how a set is printed is the parameter \<open>set_repr\<close>.
\<close>

definition make_errors_dict ::
  "(string fset \<Rightarrow> string) \<Rightarrow> SuperpositionCheck \<Rightarrow> SuperpositionCheck" where
  "make_errors_dict set_repr s =
     fold (\<lambda>(base, secondaries) st.
             st\<lparr>sc_errors := sc_errors st @
                  [''El elemento '' @ base @ '' del tipo '' @ base_feature st @
                   '' no est'' @ [CHR 0xE1] @ '' conectado a los elementos '' @
                   set_repr secondaries @ '' de tipo '' @ secondary_feature st @ ''.'']\<rparr>)
          (connection_error s) s"

definition set_connection :: "node \<Rightarrow> node \<Rightarrow> SuperpositionCheck \<Rightarrow> SuperpositionCheck" where
  "set_connection base_info secondary_info s =
     (case map_of (connections s) (node_name base_info) of
        Some xs \<Rightarrow>
          if xs \<noteq> []
          then s\<lparr>connections :=
                   AList.update (node_name base_info) (xs @ [node_name secondary_info])
                     (connections s)\<rparr>
          else s\<lparr>connections :=
                   AList.update (node_name base_info) [node_name secondary_info]
                     (connections s)\<rparr>
      | None \<Rightarrow>
          s\<lparr>connections :=
              AList.update (node_name base_info) [node_name secondary_info] (connections s)\<rparr>)"

definition check_connection :: "string \<Rightarrow> string \<Rightarrow> SuperpositionCheck \<Rightarrow> bool" where
  "check_connection base_name secondary_name s =
     (case map_of (connections s) base_name of
        Some xs \<Rightarrow> if xs \<noteq> [] then secondary_name \<in> set xs else False
      | None \<Rightarrow> False)"

definition node_init_operation :: "pyval \<Rightarrow> node \<Rightarrow> SuperpositionCheck \<Rightarrow> SuperpositionCheck" where
  "node_init_operation node_id n s =
     (if type_id n = base_feature_type_id s \<or> type_id n = secondary_feature_type_id s
      then s\<lparr>nodes := AList.update node_id n (nodes s)\<rparr>
      else s)"

definition arc_check_operation :: "'i \<Rightarrow> arc \<Rightarrow> SuperpositionCheck \<Rightarrow> SuperpositionCheck" where
  "arc_check_operation arc_id a s =
     (if (truthy (src_id a) \<and> truthy (dst_id a)) \<and>
         (map_of (nodes s) (src_id a) \<noteq> None \<and> map_of (nodes s) (dst_id a) \<noteq> None)
      then
        (case (map_of (nodes s) (src_id a), map_of (nodes s) (dst_id a)) of
           (Some src, Some dst) \<Rightarrow>
             if type_id src = base_feature_type_id s \<and>
                type_id dst = secondary_feature_type_id s
             then set_connection src dst s
             else if type_id src = secondary_feature_type_id s \<and>
                     type_id dst = base_feature_type_id s
             then set_connection dst src s
             else s
         | _ \<Rightarrow> s)
      else s)"

definition cell_check_operation ::
  "('c \<Rightarrow> string \<Rightarrow> string list) \<Rightarrow> 'i \<Rightarrow> 'c \<Rightarrow> SuperpositionCheck \<Rightarrow> SuperpositionCheck" where
  "cell_check_operation get_cell_feature_names cid c s =
     (let base_element = get_cell_feature_names c (base_feature s);
          secondary_element = get_cell_feature_names c (secondary_feature s)
      in fold (\<lambda>base_name st.
                 fold (\<lambda>secondary_name st'.
                         if \<not> check_connection base_name secondary_name st'
                         then add_error base_name secondary_name st'
                         else st')
                      secondary_element st)
              base_element s)"

text \<open>Whether \<open>x\<close> is among the errors recorded for the base element \<open>b\<close>.\<close>

definition reported :: "SuperpositionCheck \<Rightarrow> string \<Rightarrow> string \<Rightarrow> bool" where
  "reported s b x =
     (case map_of (connection_error s) b of None \<Rightarrow> False | Some xs \<Rightarrow> x |\<in>| xs)"

section \<open>Runs of the aggregator\<close>

text \<open>
  A sequence of \<open>_set_cell\<close> calls, as \<open>make_cell_data_by_main_map\<close> and
  \<open>make_cell_data_by_secondary_maps\<close> of the processor classes issue them, one for each
  fragment \<open>(cell, name, data)\<close> of the overlay, \<open>data\<close> being a reference. A
  dictionary is well formed for the metric field when it holds an integer there and
  carries a \<open>cell_id\<close>.
\<close>

definition accumulate_all ::
  "string \<Rightarrow> (cell \<times> string \<times> ref) list \<Rightarrow> FeatureProcess \<Rightarrow> py_error + FeatureProcess" where
  "accumulate_all by_field fragments s =
     fold_err (\<lambda>(c, area_name, d). set_cell c area_name d by_field) fragments s"

definition wf_data :: "string \<Rightarrow> data \<Rightarrow> bool" where
  "wf_data by_field d =
     ((case map_of d by_field of Some (PInt m) \<Rightarrow> True | _ \<Rightarrow> False) \<and>
      map_of d ''cell_id'' \<noteq> None)"

text \<open>The aggregated state holds only non-empty cells of well-formed candidates.\<close>

definition good_cells :: "string \<Rightarrow> store \<Rightarrow> cells_dict \<Rightarrow> bool" where
  "good_cells by_field h cs =
     (\<forall>x\<in>set cs. snd x \<noteq> [] \<and> (\<forall>y\<in>set (snd x). wf_data by_field (h (snd y))))"

text \<open>An error entry of the ledger.\<close>

definition mk_error :: "string \<Rightarrow> string \<Rightarrow> string \<Rightarrow> diag" where
  "mk_error t c msg = \<lparr>err_typ = t, err_code = c, err_msg = msg, err_is_warn = False\<rparr>"

text \<open>
  The constructor, for a class named \<open>cn\<close> whose configured type name is \<open>ft\<close>, in a
  run whose data dictionaries are those of the store \<open>h\<close>: empty dictionaries, and a
  summary whose prefix is the feature type.
\<close>

definition init_process :: "string \<Rightarrow> string \<Rightarrow> store \<Rightarrow> FeatureProcess" where
  "init_process cn ft h =
     \<lparr>objects = h, cells = [], cell_ids = [], map_names = [], features_by_map = [],
      feature_type = ft, class_name = cn,
      summary = \<lparr>prefix = ft, input_params = [], process_lines = [], errors = []\<rparr>\<rparr>"

section \<open>Reading the aggregated state\<close>

text \<open>
  \<open>self.cells[cell][area_name]\<close> where both keys are present (a reference), the
  dictionary it denotes, the number of entries stored for a name at a cell, and the
  integer held in the metric field of a dictionary.
\<close>

definition candidate :: "FeatureProcess \<Rightarrow> cell \<Rightarrow> string \<Rightarrow> ref option" where
  "candidate s c a =
     (case map_of (cells s) c of None \<Rightarrow> None | Some targets \<Rightarrow> map_of targets a)"

definition candidate_data :: "FeatureProcess \<Rightarrow> cell \<Rightarrow> string \<Rightarrow> data option" where
  "candidate_data s c a =
     (case candidate s c a of None \<Rightarrow> None | Some p \<Rightarrow> Some (objects s p))"

definition candidate_count :: "FeatureProcess \<Rightarrow> cell \<Rightarrow> string \<Rightarrow> nat" where
  "candidate_count s c a =
     (case map_of (cells s) c of
        None \<Rightarrow> 0
      | Some targets \<Rightarrow> length (filter (\<lambda>x. fst x = a) targets))"

definition metric_of :: "string \<Rightarrow> data \<Rightarrow> int" where
  "metric_of by_field d = (case map_of d by_field of Some (PInt m) \<Rightarrow> m | _ \<Rightarrow> 0)"

section \<open>Process trail\<close>

lemma process_lines_set_input_param:
  "process_lines (set_input_param k v s) = process_lines s"
  by (simp add: set_input_param_def)

lemma process_lines_set_input_params:
  "process_lines (set_input_params ps s) = process_lines s"
proof -
  have "process_lines (fold (\<lambda>param_name s'. case map_of ps param_name of
                              None \<Rightarrow> s'
                            | Some v \<Rightarrow> set_input_param param_name v s') ks s)
        = process_lines s" for ks
    by (induction ks arbitrary: s)
       (simp_all add: process_lines_set_input_param split: option.splits)
  then show ?thesis by (simp add: set_input_params_def)
qed

lemma process_lines_append_error:
  "process_lines (append_error m ms t w c s) = process_lines s"
  by (simp add: append_error_def Let_def split: option.splits)

lemma prefix_summary_step:
  "Sublist.prefix (process_lines s) (process_lines (summary_step gm fmt op s))"
  by (cases op)
     (auto simp: process_lines_set_input_param process_lines_set_input_params
                 process_lines_append_error set_process_line_def Let_def
           split: sum.splits)

lemma prefix_summary_run:
  "Sublist.prefix (process_lines s) (process_lines (summary_run gm fmt ops s))"
  unfolding summary_run_def
proof (induction ops arbitrary: s)
  case Nil
  show ?case by simp
next
  case (Cons op ops)
  have "Sublist.prefix (process_lines s) (process_lines (summary_step gm fmt op s))"
    by (rule prefix_summary_step)
  also have "Sublist.prefix \<dots> (process_lines (fold (summary_step gm fmt) ops (summary_step gm fmt op s)))"
    by (rule Cons.IH)
  finally show ?case by simp
qed

text \<open>
  C9. Process trail. A \<open>set_process_line\<close> call whose template expands to \<open>m\<close>
  returns, and the trail afterwards is the trail before followed by exactly one line,
  with message \<open>m\<close> and status ERROR when the failed flag is set and OK otherwise.
  Whatever sequence of state-changing operations is run, the trail before is a prefix of
  the trail after: no line is reordered, removed or modified. Reading the trail returns
  the lines in append order, and the rendered reading has one line per stored line.
\<close>

theorem process_trail_append_only:
  "(fmt (gm n) (fold (\<lambda>(k, v) d. AList.update k v d) kw []) = Inr m \<longrightarrow>
      (\<exists>s'. set_process_line gm fmt n failed kw s = Inr s' \<and>
            process_lines s' =
              process_lines s @ [\<lparr>line = m, status = (if failed then ''ERROR'' else ''OK'')\<rparr>] \<and>
            get_process_lines ui False s' = process_lines s')) \<and>
   Sublist.prefix (process_lines s) (process_lines (summary_run gm fmt ops s)) \<and>
   get_process_lines ui False s = process_lines s \<and>
   length (get_process_lines ui True s) = length (process_lines s)"
proof (intro conjI impI)
  assume "fmt (gm n) (fold (\<lambda>(k, v) d. AList.update k v d) kw []) = Inr m"
  then show "\<exists>s'. set_process_line gm fmt n failed kw s = Inr s' \<and>
            process_lines s' =
              process_lines s @ [\<lparr>line = m, status = (if failed then ''ERROR'' else ''OK'')\<rparr>] \<and>
            get_process_lines ui False s' = process_lines s'"
    by (simp add: set_process_line_def get_process_lines_def)
next
  show "Sublist.prefix (process_lines s) (process_lines (summary_run gm fmt ops s))"
    by (rule prefix_summary_run)
next
  show "get_process_lines ui False s = process_lines s"
    by (simp add: get_process_lines_def)
next
  show "length (get_process_lines ui True s) = length (process_lines s)"
    by (simp add: get_process_lines_def)
qed


theorem process_trail_append_only_witness:
  "(\<lambda>t d. Inr (t @ '' done'')) ((\<lambda>n. n) ''import_maps'')
      (fold (\<lambda>(k, v) d. AList.update k v d) [(''map_name'', PStr ''rivers'')] [])
     = (Inr ''import_maps done'' :: py_error + string) \<and>
   (\<exists>s'. set_process_line (\<lambda>n. n) (\<lambda>t d. Inr (t @ '' done'')) ''import_maps'' True
            [(''map_name'', PStr ''rivers'')]
            \<lparr>prefix = ''river'', input_params = [],
             process_lines = [\<lparr>line = ''first'', status = ''OK''\<rparr>], errors = []\<rparr> = Inr s' \<and>
         process_lines s' =
           [\<lparr>line = ''first'', status = ''OK''\<rparr>,
            \<lparr>line = ''import_maps done'', status = ''ERROR''\<rparr>])"
  using process_trail_append_only
    [where fmt = "\<lambda>t d. Inr (t @ '' done'')" and gm = "\<lambda>n. n" and n = "''import_maps''"
       and kw = "[(''map_name'', PStr ''rivers'')]" and m = "''import_maps done''"
       and failed = True and ops = "[]" and ui = "\<lambda>t c. t"
       and s = "\<lparr>prefix = ''river'', input_params = [],
                 process_lines = [\<lparr>line = ''first'', status = ''OK''\<rparr>], errors = []\<rparr>"]
  by auto

section \<open>Accumulation\<close>

lemma getitem_Some: "map_of d k = Some v \<Longrightarrow> getitem d k = Inr v"
  by (simp add: getitem_def)

lemma getitem_None: "map_of d k = None \<Longrightarrow> getitem d k = Inl KeyError"
  by (simp add: getitem_def)

lemma filter_key_update_absent:
  "map_of al k = None \<Longrightarrow> filter (\<lambda>x. fst x = k) (AList.update k v al) = [(k, v)]"
  by (induction al) (auto split: if_splits)

text \<open>
  C2. Metric accumulation. For a cell \<open>c\<close> and a name \<open>a\<close> not yet stored at \<open>c\<close>,
  accumulating the dictionary \<open>r1\<close> (metric \<open>m1\<close>) creates the entry with the given
  data, and accumulating \<open>r2\<close> (metric \<open>m2\<close>) for the same pair afterwards leaves
  exactly one entry for \<open>a\<close> at \<open>c\<close>: the first dictionary, with its metric field set
  to \<open>m1 + m2\<close>. Both calls return.
\<close>

theorem set_cell_accumulates:
  assumes "candidate s c a = None"
    and "map_of (objects s r1) f = Some (PInt m1)" and "map_of (objects s r2) f = Some (PInt m2)"
  shows "\<exists>s1 s2. set_cell c a r1 f s = Inr s1 \<and> candidate s1 c a = Some r1 \<and>
           candidate_data s1 c a = Some (objects s r1) \<and>
           set_cell c a r2 f s1 = Inr s2 \<and>
           candidate s2 c a = Some r1 \<and>
           candidate_data s2 c a = Some (AList.update f (PInt (m1 + m2)) (objects s r1)) \<and>
           getitem (AList.update f (PInt (m1 + m2)) (objects s r1)) f = Inr (PInt (m1 + m2)) \<and>
           candidate_count s2 c a = 1"
  using assms
  by (auto simp: set_cell_def candidate_def candidate_data_def candidate_count_def getitem_def
                 update_conv' filter_key_update_absent
           split: option.splits)

theorem set_cell_accumulates_witness:
  "candidate (init_process ''CatchmentProcess'' ''catchment''
       ((\<lambda>p. [])(0 := [(''name'', PStr ''A''), (''area'', PInt 3)],
                  1 := [(''name'', PStr ''A''), (''area'', PInt 4)])))
     \<lparr>row = 1, col = 2\<rparr> ''A'' = None \<and>
   (\<exists>s1 s2.
      set_cell \<lparr>row = 1, col = 2\<rparr> ''A'' 0 ''area''
        (init_process ''CatchmentProcess'' ''catchment''
           ((\<lambda>p. [])(0 := [(''name'', PStr ''A''), (''area'', PInt 3)],
                      1 := [(''name'', PStr ''A''), (''area'', PInt 4)]))) = Inr s1 \<and>
      set_cell \<lparr>row = 1, col = 2\<rparr> ''A'' 1 ''area'' s1 = Inr s2 \<and>
      candidate_data s2 \<lparr>row = 1, col = 2\<rparr> ''A''
        = Some [(''name'', PStr ''A''), (''area'', PInt 7)] \<and>
      candidate_count s2 \<lparr>row = 1, col = 2\<rparr> ''A'' = 1)"
  using set_cell_accumulates
    [of "init_process ''CatchmentProcess'' ''catchment''
           ((\<lambda>p. [])(0 := [(''name'', PStr ''A''), (''area'', PInt 3)],
                      1 := [(''name'', PStr ''A''), (''area'', PInt 4)]))"
        "\<lparr>row = 1, col = 2\<rparr>" "''A''" 0 "''area''" 3 1 4]
  by (auto simp: candidate_def init_process_def)

section \<open>Ordering\<close>

lemma map_err_cong_set:
  "\<forall>x\<in>set xs. f x = g x \<Longrightarrow> map_err f xs = map_err g xs"
  by (induction xs) (auto split: sum.splits)

lemma map_err_Inr: "map_err (\<lambda>x. Inr (g x)) xs = Inr (map g xs)"
  by (induction xs) auto

lemma sort_key_map_pair:
  "sort_key h (map g zs) = map g (sort_key (\<lambda>z. h (g z)) zs)"
proof (induction zs)
  case Nil
  show ?case by simp
next
  case (Cons z zs)
  have ins: "insort_key h (g z) (map g ys) = map g (insort_key (\<lambda>z. h (g z)) z ys)" for ys
    by (induction ys) auto
  show ?case using Cons by (simp add: ins)
qed

lemma sort_key_short: "length xs \<le> 1 \<Longrightarrow> rev (sort_key m (rev xs)) = xs"
  by (cases xs) auto

lemma py_sorted_reverse_int:
  assumes "\<And>x. x \<in> set xs \<Longrightarrow> f x = Inr (PInt (m x))"
  shows "py_sorted_reverse f xs = Inr (rev (sort_key m (rev xs)))"
proof -
  let ?g = "\<lambda>x. (x, PInt (m x))"
  have keys: "map_err (\<lambda>x. case f x of Inl e \<Rightarrow> Inl e | Inr k \<Rightarrow> Inr (x, k)) xs = Inr (map ?g xs)"
  proof -
    have "map_err (\<lambda>x. case f x of Inl e \<Rightarrow> Inl e | Inr k \<Rightarrow> Inr (x, k)) xs
          = map_err (\<lambda>x. Inr (?g x)) xs"
      by (rule map_err_cong_set) (simp add: assms)
    then show ?thesis by (simp add: map_err_Inr)
  qed
  have all_int: "list_all (\<lambda>(x, k). is_PInt k) (map ?g xs)"
    by (simp add: list_all_iff)
  have sorted_eq: "map fst (rev (sort_key (\<lambda>(x, k). the_int k) (rev (map ?g xs))))
                   = rev (sort_key m (rev xs))"
  proof -
    have "sort_key (\<lambda>(x, k). the_int k) (map ?g (rev xs)) = map ?g (sort_key m (rev xs))"
      by (simp add: sort_key_map_pair)
    then show ?thesis by (simp add: rev_map o_def)
  qed
  show ?thesis
    unfolding py_sorted_reverse_def keys
    using all_int sorted_eq by (simp add: sort_key_short)
qed

lemma stable_desc_sorted: "sorted_wrt (\<lambda>a b. m b \<le> m a) (rev (sort_key m (rev xs)))"
proof -
  have "sorted (map m (sort_key m (rev xs)))" by (rule sorted_sort_key)
  then have "sorted_wrt (\<lambda>a b. m a \<le> m b) (sort_key m (rev xs))"
    by (simp add: sorted_map)
  then show ?thesis by (simp add: sorted_wrt_rev)
qed

lemma stable_desc_filter:
  "filter (\<lambda>y. m y = k) (rev (sort_key m (rev xs))) = filter (\<lambda>y. m y = k) xs"
  by (simp add: rev_filter [symmetric] sort_key_stable del: rev_filter)

lemma default_order_eq:
  assumes "map_of cs c = Some targets"
    and "\<forall>x\<in>set targets. \<exists>m. map_of (h (snd x)) f = Some (PInt m)"
  shows "cell_order_criteria_default h c cs f =
           Inr (map snd (rev (sort_key (\<lambda>x. metric_of f (h (snd x))) (rev targets))))"
proof -
  let ?m = "\<lambda>x. metric_of f (h (snd x))"
  have key: "\<And>x. x \<in> set targets \<Longrightarrow> getitem (h (snd x)) f = Inr (PInt (?m x))"
    using assms(2) by (auto simp: getitem_def metric_of_def)
  have srt: "py_sorted_reverse (\<lambda>x. getitem (h (snd x)) f) targets
               = Inr (rev (sort_key ?m (rev targets)))"
    using key by (rule py_sorted_reverse_int)
  show ?thesis
    by (simp add: cell_order_criteria_default_def getitem_Some [OF assms(1)] srt)
qed

text \<open>
  C3. Ordering. When every candidate of the cell holds an integer in the metric field,
  the default criteria return the candidates of the cell, each once, sorted by the
  metric in descending order, and the candidates of any one metric value appear in the
  order in which they were inserted. Candidates \<open>x\<close>, \<open>y\<close>, \<open>z\<close> inserted in that order
  with metrics 5, 5, 9 come out as \<open>z\<close>, \<open>x\<close>, \<open>y\<close>.
\<close>

theorem default_order_descending_stable:
  assumes "map_of cs c = Some targets"
    and "\<forall>x\<in>set targets. \<exists>m. map_of (h (snd x)) f = Some (PInt m)"
  shows "(\<exists>ys. cell_order_criteria_default h c cs f = Inr ys \<and>
           mset ys = mset (map snd targets) \<and>
           sorted_wrt (\<lambda>a b. metric_of f (h b) \<le> metric_of f (h a)) ys \<and>
           (\<forall>k. filter (\<lambda>p. metric_of f (h p) = k) ys =
                filter (\<lambda>p. metric_of f (h p) = k) (map snd targets))) \<and>
         cell_order_criteria_default
           ((\<lambda>p::nat. [])(0 := [(''name'', PStr ''x''), (''area'', PInt 5)],
                      1 := [(''name'', PStr ''y''), (''area'', PInt 5)],
                      2 := [(''name'', PStr ''z''), (''area'', PInt 9)]))
           \<lparr>row = 1, col = 2\<rparr>
           [(\<lparr>row = 1, col = 2\<rparr>, [(''x'', 0), (''y'', 1), (''z'', 2)])] ''area''
         = Inr [2, 0, 1] \<and>
         map ((\<lambda>p::nat. [])(0 := [(''name'', PStr ''x''), (''area'', PInt 5)],
                        1 := [(''name'', PStr ''y''), (''area'', PInt 5)],
                        2 := [(''name'', PStr ''z''), (''area'', PInt 9)])) [2, 0, 1]
         = [[(''name'', PStr ''z''), (''area'', PInt 9)],
            [(''name'', PStr ''x''), (''area'', PInt 5)],
            [(''name'', PStr ''y''), (''area'', PInt 5)]]"
proof -
  let ?m = "\<lambda>x. metric_of f (h (snd x))"
  let ?zs = "rev (sort_key ?m (rev targets))"
  have res: "cell_order_criteria_default h c cs f = Inr (map snd ?zs)"
    using assms by (rule default_order_eq)
  have p1: "mset (map snd ?zs) = mset (map snd targets)"
    by simp
  have p2: "sorted_wrt (\<lambda>a b. metric_of f (h b) \<le> metric_of f (h a)) (map snd ?zs)"
    using stable_desc_sorted [of ?m targets] by (simp add: sorted_wrt_map)
  have p3: "filter (\<lambda>p. metric_of f (h p) = k) (map snd ?zs) =
            filter (\<lambda>p. metric_of f (h p) = k) (map snd targets)" for k
    using stable_desc_filter [of ?m k targets] by (simp add: filter_map o_def)
  have general: "\<exists>ys. cell_order_criteria_default h c cs f = Inr ys \<and>
           mset ys = mset (map snd targets) \<and>
           sorted_wrt (\<lambda>a b. metric_of f (h b) \<le> metric_of f (h a)) ys \<and>
           (\<forall>k. filter (\<lambda>p. metric_of f (h p) = k) ys =
                filter (\<lambda>p. metric_of f (h p) = k) (map snd targets))"
    using res p1 p2 p3 by blast
  have inst: "cell_order_criteria_default
           ((\<lambda>p::nat. [])(0 := [(''name'', PStr ''x''), (''area'', PInt 5)],
                      1 := [(''name'', PStr ''y''), (''area'', PInt 5)],
                      2 := [(''name'', PStr ''z''), (''area'', PInt 9)]))
           \<lparr>row = 1, col = 2\<rparr>
           [(\<lparr>row = 1, col = 2\<rparr>, [(''x'', 0), (''y'', 1), (''z'', 2)])] ''area''
         = Inr [2, 0, 1]"
    by (simp add: cell_order_criteria_default_def getitem_def py_sorted_reverse_def)
  have names: "map ((\<lambda>p::nat. [])(0 := [(''name'', PStr ''x''), (''area'', PInt 5)],
                        1 := [(''name'', PStr ''y''), (''area'', PInt 5)],
                        2 := [(''name'', PStr ''z''), (''area'', PInt 9)])) [2, 0, 1]
         = [[(''name'', PStr ''z''), (''area'', PInt 9)],
            [(''name'', PStr ''x''), (''area'', PInt 5)],
            [(''name'', PStr ''y''), (''area'', PInt 5)]]"
    by simp
  show ?thesis using general inst names by blast
qed

theorem default_order_descending_stable_witness:
  "\<exists>ys. cell_order_criteria_default
            ((\<lambda>p::nat. [])(0 := [(''area'', PInt 2)], 1 := [(''area'', PInt 7)]))
            \<lparr>row = 0, col = 0\<rparr>
            [(\<lparr>row = 0, col = 0\<rparr>, [(''a'', 0), (''b'', 1)])] ''area'' = Inr ys \<and>
         sorted_wrt (\<lambda>a b. metric_of ''area'' (((\<lambda>p::nat. [])(0 := [(''area'', PInt 2)], 1 := [(''area'', PInt 7)])) b)
                          \<le> metric_of ''area'' (((\<lambda>p::nat. [])(0 := [(''area'', PInt 2)], 1 := [(''area'', PInt 7)])) a)) ys \<and>
         mset ys = mset (map snd [(''a'', 0::nat), (''b'', 1)])"
proof -
  have h1: "map_of [(\<lparr>row = 0, col = 0\<rparr>, [(''a'', 0), (''b'', 1)])] \<lparr>row = 0, col = 0\<rparr>
              = Some [(''a'', 0::nat), (''b'', 1)]"
    by simp
  have h2: "\<forall>x\<in>set [(''a'', 0::nat), (''b'', 1)].
              \<exists>m. map_of (((\<lambda>p::nat. [])(0 := [(''area'', PInt 2)], 1 := [(''area'', PInt 7)])) (snd x)) ''area'' = Some (PInt m)"
    by simp
  from default_order_descending_stable [OF h1 h2] show ?thesis by blast
qed

section \<open>Queries on resolved cells\<close>

lemma get_cell_data_by_map_known:
  assumes "map_of (cell_ids s) c = Some r"
    and "\<forall>d\<in>set (rec_data r). map_of (objects s d) ''map_name'' \<noteq> None"
  shows "get_cell_data_by_map m c s =
           Inr (filter (\<lambda>d. map_of (objects s d) ''map_name'' = Some (PStr m)) (rec_data r))"
proof -
  let ?g = "\<lambda>d. (d, map_of (objects s d) ''map_name'' = Some (PStr m))"
  have "map_err (\<lambda>d. case getitem (objects s d) ''map_name'' of
                               Inl e \<Rightarrow> Inl e
                             | Inr v \<Rightarrow> Inr (d, v = PStr m)) (rec_data r)
        = map_err (\<lambda>d. Inr (?g d)) (rec_data r)"
    by (rule map_err_cong_set) (use assms(2) in \<open>auto simp: getitem_def\<close>)
  then have flagged: "map_err (\<lambda>d. case getitem (objects s d) ''map_name'' of
                               Inl e \<Rightarrow> Inl e
                             | Inr v \<Rightarrow> Inr (d, v = PStr m)) (rec_data r)
        = Inr (map ?g (rec_data r))"
    by (simp add: map_err_Inr)
  have "map fst (filter snd (map ?g xs)) =
          filter (\<lambda>d. map_of (objects s d) ''map_name'' = Some (PStr m)) xs" for xs
    by (induction xs) auto
  then show ?thesis
    by (simp add: get_cell_data_by_map_def assms(1) flagged)
qed

text \<open>
  C10. Queries on resolved cells. For a cell that is not in the resolved mapping,
  \<open>get_cell_data_by_map\<close> returns the empty list and \<open>get_cell_id_data\<close> returns
  \<open>None\<close>; neither raises, and both are readers that return no new state. For a
  resolved cell whose candidates carry a \<open>map_name\<close>, \<open>get_cell_data_by_map\<close>
  returns the candidates of the requested map, in resolved order, and
  \<open>get_cell_id_data\<close> returns the record.
\<close>

theorem query_cells_total:
  "(map_of (cell_ids s) c = None \<longrightarrow>
      get_cell_data_by_map m c s = Inr [] \<and> get_cell_id_data c s = None) \<and>
   (map_of (cell_ids s) c = Some r \<and>
    (\<forall>d\<in>set (rec_data r). map_of (objects s d) ''map_name'' \<noteq> None) \<longrightarrow>
      get_cell_data_by_map m c s =
        Inr (filter (\<lambda>d. map_of (objects s d) ''map_name'' = Some (PStr m)) (rec_data r)) \<and>
      get_cell_id_data c s = Some r)"
  by (auto simp: get_cell_data_by_map_known get_cell_id_data_def)
     (simp add: get_cell_data_by_map_def)

theorem query_cells_total_witness:
  "get_cell_data_by_map ''rivers'' \<lparr>row = 9, col = 9\<rparr>
     ((init_process ''RiverProcess'' ''river''
        ((\<lambda>p::nat. [])(0 := [(''name'', PStr ''a''), (''map_name'', PStr ''rivers'')],
           1 := [(''name'', PStr ''b''), (''map_name'', PStr ''other'')])))
        \<lparr>cell_ids := [(\<lparr>row = 1, col = 2\<rparr>,
            \<lparr>number_of_data = 2, cell_id = PInt 7, rec_row = 1, rec_col = 2, rec_data = [0, 1]\<rparr>)]\<rparr>)
     = Inr [] \<and>
   get_cell_id_data \<lparr>row = 9, col = 9\<rparr>
     ((init_process ''RiverProcess'' ''river''
        ((\<lambda>p::nat. [])(0 := [(''name'', PStr ''a''), (''map_name'', PStr ''rivers'')],
           1 := [(''name'', PStr ''b''), (''map_name'', PStr ''other'')])))
        \<lparr>cell_ids := [(\<lparr>row = 1, col = 2\<rparr>,
            \<lparr>number_of_data = 2, cell_id = PInt 7, rec_row = 1, rec_col = 2, rec_data = [0, 1]\<rparr>)]\<rparr>)
     = None \<and>
   get_cell_data_by_map ''rivers'' \<lparr>row = 1, col = 2\<rparr>
     ((init_process ''RiverProcess'' ''river''
        ((\<lambda>p::nat. [])(0 := [(''name'', PStr ''a''), (''map_name'', PStr ''rivers'')],
           1 := [(''name'', PStr ''b''), (''map_name'', PStr ''other'')])))
        \<lparr>cell_ids := [(\<lparr>row = 1, col = 2\<rparr>,
            \<lparr>number_of_data = 2, cell_id = PInt 7, rec_row = 1, rec_col = 2, rec_data = [0, 1]\<rparr>)]\<rparr>)
     = Inr [0] \<and>
   get_cell_id_data \<lparr>row = 1, col = 2\<rparr>
     ((init_process ''RiverProcess'' ''river''
        ((\<lambda>p::nat. [])(0 := [(''name'', PStr ''a''), (''map_name'', PStr ''rivers'')],
           1 := [(''name'', PStr ''b''), (''map_name'', PStr ''other'')])))
        \<lparr>cell_ids := [(\<lparr>row = 1, col = 2\<rparr>,
            \<lparr>number_of_data = 2, cell_id = PInt 7, rec_row = 1, rec_col = 2, rec_data = [0, 1]\<rparr>)]\<rparr>)
     = Some \<lparr>number_of_data = 2, cell_id = PInt 7, rec_row = 1, rec_col = 2, rec_data = [0, 1]\<rparr>"
  using query_cells_total
    [of "((init_process ''RiverProcess'' ''river''
        ((\<lambda>p::nat. [])(0 := [(''name'', PStr ''a''), (''map_name'', PStr ''rivers'')],
           1 := [(''name'', PStr ''b''), (''map_name'', PStr ''other'')])))
        \<lparr>cell_ids := [(\<lparr>row = 1, col = 2\<rparr>,
            \<lparr>number_of_data = 2, cell_id = PInt 7, rec_row = 1, rec_col = 2, rec_data = [0, 1]\<rparr>)]\<rparr>)"
        "\<lparr>row = 9, col = 9\<rparr>" "''rivers''"]
    query_cells_total
    [of "((init_process ''RiverProcess'' ''river''
        ((\<lambda>p::nat. [])(0 := [(''name'', PStr ''a''), (''map_name'', PStr ''rivers'')],
           1 := [(''name'', PStr ''b''), (''map_name'', PStr ''other'')])))
        \<lparr>cell_ids := [(\<lparr>row = 1, col = 2\<rparr>,
            \<lparr>number_of_data = 2, cell_id = PInt 7, rec_row = 1, rec_col = 2, rec_data = [0, 1]\<rparr>)]\<rparr>)"
        "\<lparr>row = 1, col = 2\<rparr>" "''rivers''" "\<lparr>number_of_data = 2, cell_id = PInt 7, rec_row = 1, rec_col = 2, rec_data = [0, 1]\<rparr>"]
  by (simp add: init_process_def)

section \<open>Resolution\<close>

lemma fold_set_cell_id_lookup:
  "fold_err (set_cell_id crit f h cs) ks ids = Inr ids' \<Longrightarrow>
   map_of ids' c =
     (if c \<in> set ks then (case cell_id_entry crit f h cs c of Inr r \<Rightarrow> Some r | Inl e \<Rightarrow> None)
      else map_of ids c)"
proof (induction ks arbitrary: ids)
  case Nil
  then show ?case by simp
next
  case (Cons k ks)
  then show ?case
    by (auto simp: set_cell_id_def update_conv' split: sum.splits)
qed

lemma fold_set_cell_id_ok:
  "fold_err (set_cell_id crit f h cs) ks ids = Inr ids' \<Longrightarrow>
   \<forall>c\<in>set ks. \<exists>r. cell_id_entry crit f h cs c = Inr r"
  by (induction ks arbitrary: ids) (auto simp: set_cell_id_def split: sum.splits)

lemma fold_set_cell_id_total:
  "\<forall>c\<in>set ks. \<exists>r. cell_id_entry crit f h cs c = Inr r \<Longrightarrow>
   \<exists>ids'. fold_err (set_cell_id crit f h cs) ks ids = Inr ids'"
  by (induction ks arbitrary: ids) (auto simp: set_cell_id_def split: sum.splits)

lemma fold_set_cell_id_fixed:
  "\<forall>c\<in>set ks. \<exists>r. cell_id_entry crit f h cs c = Inr r \<and> map_of ids c = Some r \<Longrightarrow>
   fold_err (set_cell_id crit f h cs) ks ids = Inr ids"
  by (induction ks) (auto simp: set_cell_id_def update_triv split: sum.splits)

lemma fold_set_cell_id_keys:
  "fold_err (set_cell_id crit f h cs) ks ids = Inr ids' \<Longrightarrow>
   fst ` set ids' = fst ` set ids \<union> set ks"
proof -
  assume run: "fold_err (set_cell_id crit f h cs) ks ids = Inr ids'"
  have "c \<in> dom (map_of ids') \<longleftrightarrow> c \<in> dom (map_of ids) \<union> set ks" for c
  proof (cases "c \<in> set ks")
    case True
    then obtain r where "cell_id_entry crit f h cs c = Inr r"
      using fold_set_cell_id_ok [OF run] by blast
    then have "map_of ids' c = Some r"
      using fold_set_cell_id_lookup [OF run, of c] True by simp
    then show ?thesis using True by auto
  next
    case False
    then have "map_of ids' c = map_of ids c"
      using fold_set_cell_id_lookup [OF run, of c] by simp
    then show ?thesis using False by (auto simp: dom_def)
  qed
  then have "dom (map_of ids') = dom (map_of ids) \<union> set ks"
    by blast
  then show ?thesis by (simp add: dom_map_of_conv_image_fst)
qed

lemma resolve_idempotent:
  assumes "set_cell_by_criteria crit f s = Inr s'"
  shows "set_cell_by_criteria crit f s' = Inr s'"
proof -
  from assms obtain ids where
    run: "fold_err (set_cell_id crit f (objects s) (cells s)) (map fst (cells s)) (cell_ids s)
            = Inr ids"
    and s': "s' = s\<lparr>cell_ids := ids\<rparr>"
    by (auto simp: set_cell_by_criteria_def split: sum.splits)
  have "\<forall>c\<in>set (map fst (cells s)).
          \<exists>r. cell_id_entry crit f (objects s) (cells s) c = Inr r \<and> map_of ids c = Some r"
    using fold_set_cell_id_ok [OF run] fold_set_cell_id_lookup [OF run] by fastforce
  then have "fold_err (set_cell_id crit f (objects s) (cells s)) (map fst (cells s)) ids = Inr ids"
    by (rule fold_set_cell_id_fixed)
  then show ?thesis by (simp add: set_cell_by_criteria_def s')
qed

lemma set_cell_cell_ids:
  "set_cell c a d f (s\<lparr>cell_ids := x\<rparr>) =
     (case set_cell c a d f s of Inl e \<Rightarrow> Inl e | Inr u \<Rightarrow> Inr (u\<lparr>cell_ids := x\<rparr>))"
  by (simp add: set_cell_def split: option.splits sum.splits)

lemma accumulate_all_cell_ids:
  "accumulate_all f frags (s\<lparr>cell_ids := x\<rparr>) =
     (case accumulate_all f frags s of Inl e \<Rightarrow> Inl e | Inr u \<Rightarrow> Inr (u\<lparr>cell_ids := x\<rparr>))"
  unfolding accumulate_all_def
proof (induction frags arbitrary: s)
  case Nil
  show ?case by simp
next
  case (Cons fr frags)
  obtain c a d where fr: "fr = (c, a, d)" by (cases fr) auto
  show ?case
    by (cases "set_cell c a d f s") (simp_all add: fr set_cell_cell_ids Cons.IH)
qed

lemma keys_update: "fst ` set (AList.update k v al) = insert k (fst ` set al)"
proof -
  have "dom (map_of (AList.update k v al)) = insert k (dom (map_of al))"
    by (simp add: update_conv')
  then show ?thesis by (simp only: dom_map_of_conv_image_fst)
qed

lemma set_cell_frame:
  assumes "set_cell c a d f s = Inr s'"
  shows "cell_ids s' = cell_ids s \<and> fst ` set (cells s') = insert c (fst ` set (cells s))"
proof (cases "candidate s c a")
  case None
  with assms obtain v where "cells s' = AList.update c v (cells s)" and "cell_ids s' = cell_ids s"
    by (fastforce simp: set_cell_def candidate_def split: option.splits sum.splits)
  then show ?thesis by (simp only: keys_update)
next
  case (Some p)
  then obtain targets where look: "map_of (cells s) c = Some targets"
    by (auto simp: candidate_def split: option.splits)
  then have "c \<in> fst ` set (cells s)"
    by (metis dom_map_of_conv_image_fst domI)
  moreover from assms Some look have "cells s' = cells s \<and> cell_ids s' = cell_ids s"
    by (auto simp: set_cell_def candidate_def split: option.splits sum.splits)
  ultimately show ?thesis by auto
qed

lemma accumulate_all_frame:
  "accumulate_all f frags s = Inr s' \<Longrightarrow>
   cell_ids s' = cell_ids s \<and> fst ` set (cells s') = fst ` set (cells s) \<union> fst ` set frags"
  unfolding accumulate_all_def
proof (induction frags arbitrary: s)
  case Nil
  then show ?case by simp
next
  case (Cons fr frags)
  obtain c a d where fr: "fr = (c, a, d)" by (cases fr) auto
  from Cons.prems obtain s1 where
    step: "set_cell c a d f s = Inr s1"
    and rest: "fold_err (\<lambda>(c, area_name, d). set_cell c area_name d f) frags s1 = Inr s'"
    by (auto simp: fr split: sum.splits)
  show ?case
    using Cons.IH [OF rest] set_cell_frame [OF step] by (auto simp: fr)
qed

lemma resolve_rerun:
  assumes first: "set_cell_by_criteria crit f s = Inr s1"
    and acc: "accumulate_all f frags s1 = Inr s2"
    and again: "set_cell_by_criteria crit f s2 = Inr s3"
  shows "(\<exists>u2 u3. accumulate_all f frags s = Inr u2 \<and> set_cell_by_criteria crit f u2 = Inr u3 \<and>
            cells u3 = cells s3 \<and> objects u3 = objects s3 \<and>
            map_of (cell_ids u3) = map_of (cell_ids s3)) \<and>
         (\<forall>c\<in>fst ` set (cells s3).
            \<exists>r. cell_id_entry crit f (objects s3) (cells s3) c = Inr r \<and>
                map_of (cell_ids s3) c = Some r)"
proof -
  from first obtain ids1 where
    run1: "fold_err (set_cell_id crit f (objects s) (cells s)) (map fst (cells s)) (cell_ids s)
             = Inr ids1"
    and s1: "s1 = s\<lparr>cell_ids := ids1\<rparr>"
    by (auto simp: set_cell_by_criteria_def split: sum.splits)
  from acc obtain u2 where
    accu: "accumulate_all f frags s = Inr u2" and s2: "s2 = u2\<lparr>cell_ids := ids1\<rparr>"
    by (auto simp: s1 accumulate_all_cell_ids split: sum.splits)
  from again obtain ids3 where
    run3: "fold_err (set_cell_id crit f (objects u2) (cells u2)) (map fst (cells u2)) ids1
             = Inr ids3"
    and s3: "s3 = s2\<lparr>cell_ids := ids3\<rparr>"
    by (auto simp: set_cell_by_criteria_def s2 split: sum.splits)
  have frame: "cell_ids u2 = cell_ids s"
    and keys: "fst ` set (cells u2) = fst ` set (cells s) \<union> fst ` set frags"
    using accumulate_all_frame [OF accu] by simp_all
  have ok: "\<forall>c\<in>set (map fst (cells u2)).
              \<exists>r. cell_id_entry crit f (objects u2) (cells u2) c = Inr r"
    by (rule fold_set_cell_id_ok [OF run3])
  then obtain idsu where
    runu: "fold_err (set_cell_id crit f (objects u2) (cells u2)) (map fst (cells u2))
             (cell_ids u2) = Inr idsu"
    using fold_set_cell_id_total by blast
  have same: "map_of idsu c = map_of ids3 c" for c
  proof (cases "c \<in> set (map fst (cells u2))")
    case True
    then show ?thesis
      using fold_set_cell_id_lookup [OF runu, of c] fold_set_cell_id_lookup [OF run3, of c]
      by simp
  next
    case False
    then have "c \<notin> set (map fst (cells s))" using keys by auto
    then have "map_of ids1 c = map_of (cell_ids s) c"
      using fold_set_cell_id_lookup [OF run1, of c] by simp
    then show ?thesis
      using False fold_set_cell_id_lookup [OF runu, of c] fold_set_cell_id_lookup [OF run3, of c]
      by (simp add: frame)
  qed
  have part1: "\<exists>u2 u3. accumulate_all f frags s = Inr u2 \<and>
            set_cell_by_criteria crit f u2 = Inr u3 \<and>
            cells u3 = cells s3 \<and> objects u3 = objects s3 \<and>
            map_of (cell_ids u3) = map_of (cell_ids s3)"
    using accu runu same by (auto simp: set_cell_by_criteria_def s3 s2)
  have part2: "\<forall>c\<in>fst ` set (cells s3).
            \<exists>r. cell_id_entry crit f (objects s3) (cells s3) c = Inr r \<and>
                map_of (cell_ids s3) c = Some r"
  proof
    fix c assume "c \<in> fst ` set (cells s3)"
    then have mem: "c \<in> set (map fst (cells u2))" by (simp add: s3 s2)
    with ok obtain r where r: "cell_id_entry crit f (objects u2) (cells u2) c = Inr r" by blast
    then have "map_of ids3 c = Some r"
      using fold_set_cell_id_lookup [OF run3, of c] mem by simp
    with r show "\<exists>r. cell_id_entry crit f (objects s3) (cells s3) c = Inr r \<and>
                     map_of (cell_ids s3) c = Some r"
      by (simp add: s3 s2)
  qed
  show ?thesis using part1 part2 by (rule conjI)
qed

lemma set_update_subset: "set (AList.update k v al) \<subseteq> insert (k, v) (set al)"
  by (induction al) auto

lemma update_not_Nil: "AList.update k v al \<noteq> []"
  by (cases al) auto

lemma wf_data_metric: "wf_data f d \<Longrightarrow> \<exists>m. map_of d f = Some (PInt m)"
  by (auto simp: wf_data_def split: option.splits pyval.splits)

lemma wf_data_update:
  assumes "wf_data f stored"
  shows "wf_data f (AList.update f (PInt n) stored)"
  using assms by (auto simp: wf_data_def update_conv' split: option.splits pyval.splits)

lemma good_cells_update:
  assumes "good_cells f h cs" and "targets \<noteq> []"
    and "\<forall>y\<in>set targets. wf_data f (h (snd y))"
  shows "good_cells f h (AList.update c targets cs)"
  unfolding good_cells_def
proof
  fix x assume "x \<in> set (AList.update c targets cs)"
  then have "x = (c, targets) \<or> x \<in> set cs" using set_update_subset by fastforce
  then show "snd x \<noteq> [] \<and> (\<forall>y\<in>set (snd x). wf_data f (h (snd y)))"
    using assms by (auto simp: good_cells_def)
qed

lemma targets_update_wf:
  assumes "\<forall>y\<in>set targets. wf_data f (h (snd y))" and "wf_data f (h d)"
  shows "\<forall>y\<in>set (AList.update a d targets). wf_data f (h (snd y))"
proof
  fix y assume "y \<in> set (AList.update a d targets)"
  then have "y = (a, d) \<or> y \<in> set targets" using set_update_subset by fastforce
  then show "wf_data f (h (snd y))" using assms by auto
qed

lemma wf_store_update:
  assumes "wf_data f (h p)" and "wf_data f (h q)"
  shows "wf_data f ((h(p := AList.update f (PInt n) (h p))) q)"
  using assms by (simp add: wf_data_update)

lemma good_cells_store_update:
  assumes "good_cells f h cs" and "wf_data f (h p)"
  shows "good_cells f (h(p := AList.update f (PInt n) (h p))) cs"
  using assms unfolding good_cells_def
  by (auto simp: wf_data_update)

lemma set_cell_good:
  assumes good: "good_cells f (objects s) (cells s)" and wf: "wf_data f (objects s d)"
  shows "\<exists>s'. set_cell c a d f s = Inr s' \<and> good_cells f (objects s') (cells s') \<and>
              (\<forall>q. wf_data f (objects s q) \<longrightarrow> wf_data f (objects s' q))"
proof (cases "map_of (cells s) c")
  case None
  have "good_cells f (objects s) (AList.update c [(a, d)] (cells s))"
    using good wf by (intro good_cells_update) auto
  then show ?thesis by (simp add: set_cell_def None)
next
  case (Some targets)
  then have mem: "(c, targets) \<in> set (cells s)" by (rule map_of_SomeD)
  then have twf: "\<forall>y\<in>set targets. wf_data f (objects s (snd y))"
    using good by (auto simp: good_cells_def)
  show ?thesis
  proof (cases "map_of targets a")
    case None
    have "good_cells f (objects s) (AList.update c (AList.update a d targets) (cells s))"
      using good targets_update_wf [OF twf wf]
      by (intro good_cells_update) (auto simp: update_not_Nil)
    then show ?thesis by (simp add: set_cell_def Some None)
  next
    case (Some stored)
    then have "(a, stored) \<in> set targets" by (rule map_of_SomeD)
    then have swf: "wf_data f (objects s stored)" using twf by auto
    obtain m where m: "map_of (objects s stored) f = Some (PInt m)"
      using wf_data_metric [OF swf] by blast
    obtain m2 where m2: "map_of (objects s d) f = Some (PInt m2)"
      using wf_data_metric [OF wf] by blast
    let ?h = "(objects s)(stored := AList.update f (PInt (m + m2)) (objects s stored))"
    have run: "set_cell c a d f s = Inr (s\<lparr>objects := ?h\<rparr>)"
      by (simp add: set_cell_def \<open>map_of (cells s) c = Some targets\<close> Some getitem_def m m2)
    have g: "good_cells f ?h (cells s)"
      using good swf by (rule good_cells_store_update)
    have mono: "\<forall>q. wf_data f (objects s q) \<longrightarrow> wf_data f (?h q)"
      using swf by (simp add: wf_data_update)
    show ?thesis using run g mono by simp
  qed
qed

lemma accumulate_all_good:
  assumes "good_cells f (objects s) (cells s)"
    and "\<forall>x\<in>set frags. wf_data f (objects s (snd (snd x)))"
  shows "\<exists>s'. accumulate_all f frags s = Inr s' \<and> good_cells f (objects s') (cells s')"
  using assms unfolding accumulate_all_def
proof (induction frags arbitrary: s)
  case Nil
  then show ?case by simp
next
  case (Cons fr frags)
  obtain c a d where fr: "fr = (c, a, d)" by (cases fr) auto
  from Cons.prems have "wf_data f (objects s d)" by (simp add: fr)
  with Cons.prems(1) obtain s1 where
    step: "set_cell c a d f s = Inr s1" and g1: "good_cells f (objects s1) (cells s1)"
    and mono: "\<forall>q. wf_data f (objects s q) \<longrightarrow> wf_data f (objects s1 q)"
    using set_cell_good by blast
  have "\<forall>x\<in>set frags. wf_data f (objects s1 (snd (snd x)))"
    using Cons.prems(2) mono by simp
  from Cons.IH [OF g1 this] show ?case by (simp add: fr step)
qed

lemma py_index_0: "xs \<noteq> [] \<Longrightarrow> py_index xs 0 = Inr (hd xs)"
  by (cases xs) (simp_all add: py_index_def)

lemma entry_ok:
  assumes good: "good_cells f h cs" and mem: "c \<in> fst ` set cs"
  shows "\<exists>r. cell_id_entry cell_order_criteria_default f h cs c = Inr r"
proof -
  from mem obtain targets where look: "map_of cs c = Some targets"
    by (metis dom_map_of_conv_image_fst domD)
  then have "(c, targets) \<in> set cs" by (rule map_of_SomeD)
  then have ne: "targets \<noteq> []" and twf: "\<forall>y\<in>set targets. wf_data f (h (snd y))"
    using good by (auto simp: good_cells_def)
  let ?ys = "map snd (rev (sort_key (\<lambda>x. metric_of f (h (snd x))) (rev targets)))"
  have res: "cell_order_criteria_default h c cs f = Inr ?ys"
    using look twf by (intro default_order_eq) (auto dest: wf_data_metric)
  have "set ?ys = snd ` set targets" by simp
  moreover have "length ?ys = length targets" by simp
  then have "?ys \<noteq> []" using ne by (metis length_0_conv)
  ultimately have "hd ?ys \<in> snd ` set targets" using hd_in_set by blast
  then have "wf_data f (h (hd ?ys))" using twf by auto
  then obtain cid where "map_of (h (hd ?ys)) ''cell_id'' = Some cid"
    by (auto simp: wf_data_def)
  then show ?thesis
    using \<open>?ys \<noteq> []\<close>
    by (simp add: cell_id_entry_def res py_index_0 getitem_def del: hd_map)
qed

lemma entry_shape:
  assumes "cell_id_entry crit f h cs c = Inr r"
  shows "crit h c cs f = Inr (rec_data r) \<and> rec_data r \<noteq> [] \<and>
         number_of_data r = length (rec_data r) \<and>
         getitem (h (hd (rec_data r))) ''cell_id'' = Inr (cell_id r) \<and>
         rec_row r = row c \<and> rec_col r = col c"
proof -
  from assms obtain ys w cid where
    "crit h c cs f = Inr ys" and idx: "py_index ys 0 = Inr w"
    and "getitem (h w) ''cell_id'' = Inr cid"
    and r: "r = \<lparr>number_of_data = length ys, cell_id = cid, rec_row = row c, rec_col = col c,
                 rec_data = ys\<rparr>"
    by (auto simp: cell_id_entry_def split: sum.splits)
  moreover from idx have "ys \<noteq> [] \<and> w = hd ys"
    by (cases ys) (auto simp: py_index_def)
  ultimately show ?thesis by simp
qed

text \<open>
  C4. Resolution is idempotent and re-runnable. If \<open>_set_cell_by_criteria\<close> returns
  on a state, running it again on the result returns the same state. If fragments are
  accumulated after a resolution and the state is resolved again, then accumulating the
  same fragments without the earlier resolution and resolving once gives the same
  cells, the same dictionaries and the same record for every cell; and every cell of the
  aggregated state has the record computed from the aggregated totals, whatever was
  resolved before.
\<close>

theorem resolve_idempotent_rerunnable:
  assumes "set_cell_by_criteria crit f s = Inr s1"
  shows "set_cell_by_criteria crit f s1 = Inr s1 \<and>
         (\<forall>frags s2 s3.
            accumulate_all f frags s1 = Inr s2 \<and> set_cell_by_criteria crit f s2 = Inr s3 \<longrightarrow>
            (\<exists>u2 u3. accumulate_all f frags s = Inr u2 \<and>
                     set_cell_by_criteria crit f u2 = Inr u3 \<and>
                     cells u3 = cells s3 \<and> objects u3 = objects s3 \<and>
                     map_of (cell_ids u3) = map_of (cell_ids s3)) \<and>
            (\<forall>c\<in>fst ` set (cells s3).
               \<exists>r. cell_id_entry crit f (objects s3) (cells s3) c = Inr r \<and>
                   map_of (cell_ids s3) c = Some r))"
  using resolve_idempotent [OF assms] resolve_rerun [OF assms] by blast

text \<open>
  C5. Resolved records. Starting from a new processor, accumulating well-formed
  fragments and resolving with the default criteria returns; the resolved mapping has
  an entry for exactly the cells that received a fragment; and every entry holds the
  non-empty ordered candidate list of its cell, its length as \<open>number_of_data\<close>, the
  \<open>cell_id\<close> of the first candidate, and the row and column of the cell key.
\<close>

theorem resolved_cells_exact:
  assumes "\<forall>x\<in>set frags. wf_data f (h (snd (snd x)))"
  shows "\<exists>s t. accumulate_all f frags (init_process cn ft h) = Inr s \<and>
           set_cell_by_criteria cell_order_criteria_default f s = Inr t \<and>
           fst ` set (cell_ids t) = fst ` set frags \<and>
           (\<forall>c r. map_of (cell_ids t) c = Some r \<longrightarrow>
              rec_data r \<noteq> [] \<and>
              cell_order_criteria_default (objects t) c (cells t) f = Inr (rec_data r) \<and>
              number_of_data r = length (rec_data r) \<and>
              getitem (objects t (hd (rec_data r))) ''cell_id'' = Inr (cell_id r) \<and>
              rec_row r = row c \<and> rec_col r = col c)"
proof -
  have "good_cells f (objects (init_process cn ft h)) (cells (init_process cn ft h))"
    by (simp add: good_cells_def init_process_def)
  moreover have "\<forall>x\<in>set frags. wf_data f (objects (init_process cn ft h) (snd (snd x)))"
    using assms by (simp add: init_process_def)
  ultimately obtain s where acc: "accumulate_all f frags (init_process cn ft h) = Inr s"
    and good: "good_cells f (objects s) (cells s)"
    using accumulate_all_good by blast
  have ids0: "cell_ids s = []" and keys: "fst ` set (cells s) = fst ` set frags"
    using accumulate_all_frame [OF acc] by (simp_all add: init_process_def)
  have "\<forall>c\<in>set (map fst (cells s)).
          \<exists>r. cell_id_entry cell_order_criteria_default f (objects s) (cells s) c = Inr r"
    using entry_ok [OF good] by simp
  then obtain ids where
    run: "fold_err (set_cell_id cell_order_criteria_default f (objects s) (cells s))
            (map fst (cells s)) (cell_ids s) = Inr ids"
    using fold_set_cell_id_total by blast
  let ?t = "s\<lparr>cell_ids := ids\<rparr>"
  have res: "set_cell_by_criteria cell_order_criteria_default f s = Inr ?t"
    by (simp add: set_cell_by_criteria_def run)
  have k: "fst ` set (cell_ids ?t) = fst ` set frags"
    using fold_set_cell_id_keys [OF run] by (simp add: ids0 keys)
  have shape: "rec_data r \<noteq> [] \<and>
              cell_order_criteria_default (objects ?t) c (cells ?t) f = Inr (rec_data r) \<and>
              number_of_data r = length (rec_data r) \<and>
              getitem (objects ?t (hd (rec_data r))) ''cell_id'' = Inr (cell_id r) \<and>
              rec_row r = row c \<and> rec_col r = col c"
    if look: "map_of (cell_ids ?t) c = Some r" for c r
  proof -
    have "cell_id_entry cell_order_criteria_default f (objects s) (cells s) c = Inr r"
      using fold_set_cell_id_lookup [OF run, of c] look
      by (auto simp: ids0 split: if_splits sum.splits)
    from entry_shape [OF this] show ?thesis by simp
  qed
  show ?thesis using acc res k shape by blast
qed

text \<open>
  An instance: two candidates, resolved; a further fragment for the first candidate;
  resolved again. Between the two resolutions the list of the record still has the old
  order, and the dictionaries it refers to already show the new total.
\<close>

theorem resolve_idempotent_rerunnable_witness:
  "set_cell_by_criteria cell_order_criteria_default ''area''
     ((init_process ''CatchmentProcess'' ''catchment''
        ((\<lambda>p::nat. [])(0 := [(''area'', PInt 3), (''cell_id'', PInt 7)],
           1 := [(''area'', PInt 5), (''cell_id'', PInt 7)],
           2 := [(''area'', PInt 4), (''cell_id'', PInt 7)])))
        \<lparr>cells := [(\<lparr>row = 1, col = 2\<rparr>, [(''A'', 0), (''B'', 1)])]\<rparr>)
   = Inr ((init_process ''CatchmentProcess'' ''catchment''
        ((\<lambda>p::nat. [])(0 := [(''area'', PInt 3), (''cell_id'', PInt 7)],
           1 := [(''area'', PInt 5), (''cell_id'', PInt 7)],
           2 := [(''area'', PInt 4), (''cell_id'', PInt 7)])))
        \<lparr>cells := [(\<lparr>row = 1, col = 2\<rparr>, [(''A'', 0), (''B'', 1)])],
         cell_ids := [(\<lparr>row = 1, col = 2\<rparr>,
                     \<lparr>number_of_data = 2, cell_id = PInt 7, rec_row = 1, rec_col = 2,
                      rec_data = [1, 0]\<rparr>)]\<rparr>) \<and>
   accumulate_all ''area'' [(\<lparr>row = 1, col = 2\<rparr>, ''A'', 2)]
     ((init_process ''CatchmentProcess'' ''catchment''
        ((\<lambda>p::nat. [])(0 := [(''area'', PInt 3), (''cell_id'', PInt 7)],
           1 := [(''area'', PInt 5), (''cell_id'', PInt 7)],
           2 := [(''area'', PInt 4), (''cell_id'', PInt 7)])))
        \<lparr>cells := [(\<lparr>row = 1, col = 2\<rparr>, [(''A'', 0), (''B'', 1)])],
         cell_ids := [(\<lparr>row = 1, col = 2\<rparr>,
                     \<lparr>number_of_data = 2, cell_id = PInt 7, rec_row = 1, rec_col = 2,
                      rec_data = [1, 0]\<rparr>)]\<rparr>)
   = Inr ((init_process ''CatchmentProcess'' ''catchment''
        ((\<lambda>p::nat. [])(0 := [(''area'', PInt 3), (''cell_id'', PInt 7)],
           1 := [(''area'', PInt 5), (''cell_id'', PInt 7)],
           2 := [(''area'', PInt 4), (''cell_id'', PInt 7)])))
        \<lparr>objects := (((\<lambda>p::nat. [])(0 := [(''area'', PInt 3), (''cell_id'', PInt 7)],
           1 := [(''area'', PInt 5), (''cell_id'', PInt 7)],
           2 := [(''area'', PInt 4), (''cell_id'', PInt 7)]))
          (0 := [(''area'', PInt 7), (''cell_id'', PInt 7)])),
         cells := [(\<lparr>row = 1, col = 2\<rparr>, [(''A'', 0), (''B'', 1)])],
         cell_ids := [(\<lparr>row = 1, col = 2\<rparr>,
                     \<lparr>number_of_data = 2, cell_id = PInt 7, rec_row = 1, rec_col = 2,
                      rec_data = [1, 0]\<rparr>)]\<rparr>) \<and>
   set_cell_by_criteria cell_order_criteria_default ''area''
     ((init_process ''CatchmentProcess'' ''catchment''
        ((\<lambda>p::nat. [])(0 := [(''area'', PInt 3), (''cell_id'', PInt 7)],
           1 := [(''area'', PInt 5), (''cell_id'', PInt 7)],
           2 := [(''area'', PInt 4), (''cell_id'', PInt 7)])))
        \<lparr>objects := (((\<lambda>p::nat. [])(0 := [(''area'', PInt 3), (''cell_id'', PInt 7)],
           1 := [(''area'', PInt 5), (''cell_id'', PInt 7)],
           2 := [(''area'', PInt 4), (''cell_id'', PInt 7)]))
          (0 := [(''area'', PInt 7), (''cell_id'', PInt 7)])),
         cells := [(\<lparr>row = 1, col = 2\<rparr>, [(''A'', 0), (''B'', 1)])],
         cell_ids := [(\<lparr>row = 1, col = 2\<rparr>,
                     \<lparr>number_of_data = 2, cell_id = PInt 7, rec_row = 1, rec_col = 2,
                      rec_data = [1, 0]\<rparr>)]\<rparr>)
   = Inr ((init_process ''CatchmentProcess'' ''catchment''
        ((\<lambda>p::nat. [])(0 := [(''area'', PInt 3), (''cell_id'', PInt 7)],
           1 := [(''area'', PInt 5), (''cell_id'', PInt 7)],
           2 := [(''area'', PInt 4), (''cell_id'', PInt 7)])))
        \<lparr>objects := (((\<lambda>p::nat. [])(0 := [(''area'', PInt 3), (''cell_id'', PInt 7)],
           1 := [(''area'', PInt 5), (''cell_id'', PInt 7)],
           2 := [(''area'', PInt 4), (''cell_id'', PInt 7)]))
          (0 := [(''area'', PInt 7), (''cell_id'', PInt 7)])),
         cells := [(\<lparr>row = 1, col = 2\<rparr>, [(''A'', 0), (''B'', 1)])],
         cell_ids := [(\<lparr>row = 1, col = 2\<rparr>,
                     \<lparr>number_of_data = 2, cell_id = PInt 7, rec_row = 1, rec_col = 2,
                      rec_data = [0, 1]\<rparr>)]\<rparr>) \<and>
   set_cell_by_criteria cell_order_criteria_default ''area''
     ((init_process ''CatchmentProcess'' ''catchment''
        ((\<lambda>p::nat. [])(0 := [(''area'', PInt 3), (''cell_id'', PInt 7)],
           1 := [(''area'', PInt 5), (''cell_id'', PInt 7)],
           2 := [(''area'', PInt 4), (''cell_id'', PInt 7)])))
        \<lparr>cells := [(\<lparr>row = 1, col = 2\<rparr>, [(''A'', 0), (''B'', 1)])],
         cell_ids := [(\<lparr>row = 1, col = 2\<rparr>,
                     \<lparr>number_of_data = 2, cell_id = PInt 7, rec_row = 1, rec_col = 2,
                      rec_data = [1, 0]\<rparr>)]\<rparr>)
   = Inr ((init_process ''CatchmentProcess'' ''catchment''
        ((\<lambda>p::nat. [])(0 := [(''area'', PInt 3), (''cell_id'', PInt 7)],
           1 := [(''area'', PInt 5), (''cell_id'', PInt 7)],
           2 := [(''area'', PInt 4), (''cell_id'', PInt 7)])))
        \<lparr>cells := [(\<lparr>row = 1, col = 2\<rparr>, [(''A'', 0), (''B'', 1)])],
         cell_ids := [(\<lparr>row = 1, col = 2\<rparr>,
                     \<lparr>number_of_data = 2, cell_id = PInt 7, rec_row = 1, rec_col = 2,
                      rec_data = [1, 0]\<rparr>)]\<rparr>) \<and>
   (\<exists>u2 u3. accumulate_all ''area'' [(\<lparr>row = 1, col = 2\<rparr>, ''A'', 2)]
     ((init_process ''CatchmentProcess'' ''catchment''
        ((\<lambda>p::nat. [])(0 := [(''area'', PInt 3), (''cell_id'', PInt 7)],
           1 := [(''area'', PInt 5), (''cell_id'', PInt 7)],
           2 := [(''area'', PInt 4), (''cell_id'', PInt 7)])))
        \<lparr>cells := [(\<lparr>row = 1, col = 2\<rparr>, [(''A'', 0), (''B'', 1)])]\<rparr>) = Inr u2 \<and>
     set_cell_by_criteria cell_order_criteria_default ''area'' u2 = Inr u3 \<and>
     map_of (cell_ids u3) = map_of (cell_ids ((init_process ''CatchmentProcess'' ''catchment''
        ((\<lambda>p::nat. [])(0 := [(''area'', PInt 3), (''cell_id'', PInt 7)],
           1 := [(''area'', PInt 5), (''cell_id'', PInt 7)],
           2 := [(''area'', PInt 4), (''cell_id'', PInt 7)])))
        \<lparr>objects := (((\<lambda>p::nat. [])(0 := [(''area'', PInt 3), (''cell_id'', PInt 7)],
           1 := [(''area'', PInt 5), (''cell_id'', PInt 7)],
           2 := [(''area'', PInt 4), (''cell_id'', PInt 7)]))
          (0 := [(''area'', PInt 7), (''cell_id'', PInt 7)])),
         cells := [(\<lparr>row = 1, col = 2\<rparr>, [(''A'', 0), (''B'', 1)])],
         cell_ids := [(\<lparr>row = 1, col = 2\<rparr>,
                     \<lparr>number_of_data = 2, cell_id = PInt 7, rec_row = 1, rec_col = 2,
                      rec_data = [0, 1]\<rparr>)]\<rparr>))) \<and>
   map (objects ((init_process ''CatchmentProcess'' ''catchment''
        ((\<lambda>p::nat. [])(0 := [(''area'', PInt 3), (''cell_id'', PInt 7)],
           1 := [(''area'', PInt 5), (''cell_id'', PInt 7)],
           2 := [(''area'', PInt 4), (''cell_id'', PInt 7)])))
        \<lparr>objects := (((\<lambda>p::nat. [])(0 := [(''area'', PInt 3), (''cell_id'', PInt 7)],
           1 := [(''area'', PInt 5), (''cell_id'', PInt 7)],
           2 := [(''area'', PInt 4), (''cell_id'', PInt 7)]))
          (0 := [(''area'', PInt 7), (''cell_id'', PInt 7)])),
         cells := [(\<lparr>row = 1, col = 2\<rparr>, [(''A'', 0), (''B'', 1)])],
         cell_ids := [(\<lparr>row = 1, col = 2\<rparr>,
                     \<lparr>number_of_data = 2, cell_id = PInt 7, rec_row = 1, rec_col = 2,
                      rec_data = [1, 0]\<rparr>)]\<rparr>)) [1, 0]
   = [[(''area'', PInt 5), (''cell_id'', PInt 7)], [(''area'', PInt 7), (''cell_id'', PInt 7)]]"
proof -
  have h1: "set_cell_by_criteria cell_order_criteria_default ''area''
     ((init_process ''CatchmentProcess'' ''catchment''
        ((\<lambda>p::nat. [])(0 := [(''area'', PInt 3), (''cell_id'', PInt 7)],
           1 := [(''area'', PInt 5), (''cell_id'', PInt 7)],
           2 := [(''area'', PInt 4), (''cell_id'', PInt 7)])))
        \<lparr>cells := [(\<lparr>row = 1, col = 2\<rparr>, [(''A'', 0), (''B'', 1)])]\<rparr>)
   = Inr ((init_process ''CatchmentProcess'' ''catchment''
        ((\<lambda>p::nat. [])(0 := [(''area'', PInt 3), (''cell_id'', PInt 7)],
           1 := [(''area'', PInt 5), (''cell_id'', PInt 7)],
           2 := [(''area'', PInt 4), (''cell_id'', PInt 7)])))
        \<lparr>cells := [(\<lparr>row = 1, col = 2\<rparr>, [(''A'', 0), (''B'', 1)])],
         cell_ids := [(\<lparr>row = 1, col = 2\<rparr>,
                     \<lparr>number_of_data = 2, cell_id = PInt 7, rec_row = 1, rec_col = 2,
                      rec_data = [1, 0]\<rparr>)]\<rparr>)"
    by (simp add: set_cell_by_criteria_def set_cell_id_def cell_id_entry_def cell_order_criteria_default_def py_sorted_reverse_def getitem_def py_index_def init_process_def accumulate_all_def set_cell_def)
  have h2: "accumulate_all ''area'' [(\<lparr>row = 1, col = 2\<rparr>, ''A'', 2)]
     ((init_process ''CatchmentProcess'' ''catchment''
        ((\<lambda>p::nat. [])(0 := [(''area'', PInt 3), (''cell_id'', PInt 7)],
           1 := [(''area'', PInt 5), (''cell_id'', PInt 7)],
           2 := [(''area'', PInt 4), (''cell_id'', PInt 7)])))
        \<lparr>cells := [(\<lparr>row = 1, col = 2\<rparr>, [(''A'', 0), (''B'', 1)])],
         cell_ids := [(\<lparr>row = 1, col = 2\<rparr>,
                     \<lparr>number_of_data = 2, cell_id = PInt 7, rec_row = 1, rec_col = 2,
                      rec_data = [1, 0]\<rparr>)]\<rparr>)
   = Inr ((init_process ''CatchmentProcess'' ''catchment''
        ((\<lambda>p::nat. [])(0 := [(''area'', PInt 3), (''cell_id'', PInt 7)],
           1 := [(''area'', PInt 5), (''cell_id'', PInt 7)],
           2 := [(''area'', PInt 4), (''cell_id'', PInt 7)])))
        \<lparr>objects := (((\<lambda>p::nat. [])(0 := [(''area'', PInt 3), (''cell_id'', PInt 7)],
           1 := [(''area'', PInt 5), (''cell_id'', PInt 7)],
           2 := [(''area'', PInt 4), (''cell_id'', PInt 7)]))
          (0 := [(''area'', PInt 7), (''cell_id'', PInt 7)])),
         cells := [(\<lparr>row = 1, col = 2\<rparr>, [(''A'', 0), (''B'', 1)])],
         cell_ids := [(\<lparr>row = 1, col = 2\<rparr>,
                     \<lparr>number_of_data = 2, cell_id = PInt 7, rec_row = 1, rec_col = 2,
                      rec_data = [1, 0]\<rparr>)]\<rparr>)"
    by (simp add: set_cell_by_criteria_def set_cell_id_def cell_id_entry_def cell_order_criteria_default_def py_sorted_reverse_def getitem_def py_index_def init_process_def accumulate_all_def set_cell_def)
  have h3: "set_cell_by_criteria cell_order_criteria_default ''area''
     ((init_process ''CatchmentProcess'' ''catchment''
        ((\<lambda>p::nat. [])(0 := [(''area'', PInt 3), (''cell_id'', PInt 7)],
           1 := [(''area'', PInt 5), (''cell_id'', PInt 7)],
           2 := [(''area'', PInt 4), (''cell_id'', PInt 7)])))
        \<lparr>objects := (((\<lambda>p::nat. [])(0 := [(''area'', PInt 3), (''cell_id'', PInt 7)],
           1 := [(''area'', PInt 5), (''cell_id'', PInt 7)],
           2 := [(''area'', PInt 4), (''cell_id'', PInt 7)]))
          (0 := [(''area'', PInt 7), (''cell_id'', PInt 7)])),
         cells := [(\<lparr>row = 1, col = 2\<rparr>, [(''A'', 0), (''B'', 1)])],
         cell_ids := [(\<lparr>row = 1, col = 2\<rparr>,
                     \<lparr>number_of_data = 2, cell_id = PInt 7, rec_row = 1, rec_col = 2,
                      rec_data = [1, 0]\<rparr>)]\<rparr>)
   = Inr ((init_process ''CatchmentProcess'' ''catchment''
        ((\<lambda>p::nat. [])(0 := [(''area'', PInt 3), (''cell_id'', PInt 7)],
           1 := [(''area'', PInt 5), (''cell_id'', PInt 7)],
           2 := [(''area'', PInt 4), (''cell_id'', PInt 7)])))
        \<lparr>objects := (((\<lambda>p::nat. [])(0 := [(''area'', PInt 3), (''cell_id'', PInt 7)],
           1 := [(''area'', PInt 5), (''cell_id'', PInt 7)],
           2 := [(''area'', PInt 4), (''cell_id'', PInt 7)]))
          (0 := [(''area'', PInt 7), (''cell_id'', PInt 7)])),
         cells := [(\<lparr>row = 1, col = 2\<rparr>, [(''A'', 0), (''B'', 1)])],
         cell_ids := [(\<lparr>row = 1, col = 2\<rparr>,
                     \<lparr>number_of_data = 2, cell_id = PInt 7, rec_row = 1, rec_col = 2,
                      rec_data = [0, 1]\<rparr>)]\<rparr>)"
    by (simp add: set_cell_by_criteria_def set_cell_id_def cell_id_entry_def cell_order_criteria_default_def py_sorted_reverse_def getitem_def py_index_def init_process_def accumulate_all_def set_cell_def)
  have al: "map (objects ((init_process ''CatchmentProcess'' ''catchment''
        ((\<lambda>p::nat. [])(0 := [(''area'', PInt 3), (''cell_id'', PInt 7)],
           1 := [(''area'', PInt 5), (''cell_id'', PInt 7)],
           2 := [(''area'', PInt 4), (''cell_id'', PInt 7)])))
        \<lparr>objects := (((\<lambda>p::nat. [])(0 := [(''area'', PInt 3), (''cell_id'', PInt 7)],
           1 := [(''area'', PInt 5), (''cell_id'', PInt 7)],
           2 := [(''area'', PInt 4), (''cell_id'', PInt 7)]))
          (0 := [(''area'', PInt 7), (''cell_id'', PInt 7)])),
         cells := [(\<lparr>row = 1, col = 2\<rparr>, [(''A'', 0), (''B'', 1)])],
         cell_ids := [(\<lparr>row = 1, col = 2\<rparr>,
                     \<lparr>number_of_data = 2, cell_id = PInt 7, rec_row = 1, rec_col = 2,
                      rec_data = [1, 0]\<rparr>)]\<rparr>)) [1, 0]
   = [[(''area'', PInt 5), (''cell_id'', PInt 7)], [(''area'', PInt 7), (''cell_id'', PInt 7)]]"
    by (simp add: init_process_def)
  from resolve_idempotent_rerunnable [OF h1] h1 h2 h3 al show ?thesis by blast
qed

theorem resolved_cells_exact_witness:
  "wf_data ''area'' [(''area'', PInt 3), (''cell_id'', PInt 7)] \<and>
   wf_data ''area'' [(''area'', PInt 5), (''cell_id'', PInt 7)] \<and>
   (\<exists>s t r. accumulate_all ''area''
     [(\<lparr>row = 1, col = 2\<rparr>, ''A'', 0),
      (\<lparr>row = 1, col = 2\<rparr>, ''B'', 1)]
     (init_process ''CatchmentProcess'' ''catchment''
        ((\<lambda>p::nat. [])(0 := [(''area'', PInt 3), (''cell_id'', PInt 7)],
           1 := [(''area'', PInt 5), (''cell_id'', PInt 7)]))) = Inr s \<and>
     set_cell_by_criteria cell_order_criteria_default ''area'' s = Inr t \<and>
     fst ` set (cell_ids t) = {\<lparr>row = 1, col = 2\<rparr>} \<and>
     map_of (cell_ids t) \<lparr>row = 1, col = 2\<rparr> = Some r \<and>
     number_of_data r = length (rec_data r) \<and> rec_row r = 1 \<and> rec_col r = 2)"
proof -
  have h: "\<forall>x\<in>set [(\<lparr>row = 1, col = 2\<rparr>, ''A'', 0),
      (\<lparr>row = 1, col = 2\<rparr>, ''B'', 1)].
      wf_data ''area'' (((\<lambda>p::nat. [])(0 := [(''area'', PInt 3), (''cell_id'', PInt 7)],
           1 := [(''area'', PInt 5), (''cell_id'', PInt 7)])) (snd (snd x)))"
    by (simp add: wf_data_def)
  from resolved_cells_exact [OF h, of "''CatchmentProcess''" "''catchment''"]
  obtain s t where
    a: "accumulate_all ''area''
     [(\<lparr>row = 1, col = 2\<rparr>, ''A'', 0),
      (\<lparr>row = 1, col = 2\<rparr>, ''B'', 1)]
     (init_process ''CatchmentProcess'' ''catchment''
        ((\<lambda>p::nat. [])(0 := [(''area'', PInt 3), (''cell_id'', PInt 7)],
           1 := [(''area'', PInt 5), (''cell_id'', PInt 7)]))) = Inr s"
    and b: "set_cell_by_criteria cell_order_criteria_default ''area'' s = Inr t"
    and k0: "fst ` set (cell_ids t) = fst ` set [(\<lparr>row = 1, col = 2\<rparr>, ''A'', 0::nat),
      (\<lparr>row = 1, col = 2\<rparr>, ''B'', 1)]"
    and sh0: "\<forall>c r. map_of (cell_ids t) c = Some r \<longrightarrow>
              rec_data r \<noteq> [] \<and>
              cell_order_criteria_default (objects t) c (cells t) ''area'' = Inr (rec_data r) \<and>
              number_of_data r = length (rec_data r) \<and>
              getitem (objects t (hd (rec_data r))) ''cell_id'' = Inr (cell_id r) \<and>
              rec_row r = row c \<and> rec_col r = col c"
    by (elim exE conjE)
  have sh: "number_of_data r = length (rec_data r) \<and> rec_row r = row c \<and> rec_col r = col c"
    if "map_of (cell_ids t) c = Some r" for c r
    using sh0 that by blast
  from k0 have k: "fst ` set (cell_ids t) = {\<lparr>row = 1, col = 2\<rparr>}"
    by simp
  from k have "\<lparr>row = 1, col = 2\<rparr> \<in> dom (map_of (cell_ids t))"
    by (simp add: dom_map_of_conv_image_fst)
  then obtain r where r: "map_of (cell_ids t) \<lparr>row = 1, col = 2\<rparr> = Some r" by blast
  from sh [OF r] have "number_of_data r = length (rec_data r) \<and> rec_row r = 1 \<and> rec_col r = 2"
    by simp
  moreover have "wf_data ''area'' [(''area'', PInt 3), (''cell_id'', PInt 7)]"
    and "wf_data ''area'' [(''area'', PInt 5), (''cell_id'', PInt 7)]"
    by (simp_all add: wf_data_def)
  ultimately show ?thesis using a b k r by blast
qed

section \<open>Cross-map name validation\<close>

lemma sublist_join: "m \<in> set ms \<Longrightarrow> sublist m (join sep ms)"
proof (induction sep ms rule: join.induct)
  case (1 sep)
  then show ?case by simp
next
  case (2 sep x)
  then show ?case by simp
next
  case (3 sep x y ys)
  show ?case
  proof (cases "m = x")
    case True
    then show ?thesis by simp
  next
    case False
    with "3.prems" have "sublist m (join sep (y # ys))" by (intro "3.IH") simp
    then have "sublist m ((x @ sep) @ join sep (y # ys))"
      by (meson sublist_append_leftI sublist_order.order_trans)
    then show ?thesis by simp
  qed
qed

lemma many_maps_msg_lists:
  "sublist n (many_maps_msg n ms) \<and> (\<forall>mp\<in>set ms. sublist mp (many_maps_msg n ms))"
proof
  have "sublist n (''El nombre ['' @ n @
          (''] se encuentra en mas de un mapa (['' @ join '', '' ms @ '']) al mismo tiempo.''))"
    by (rule sublist_appendI)
  then show "sublist n (many_maps_msg n ms)" by (simp add: many_maps_msg_def)
next
  show "\<forall>mp\<in>set ms. sublist mp (many_maps_msg n ms)"
  proof
    fix mp assume "mp \<in> set ms"
    then have "sublist mp (join '', '' ms)" by (rule sublist_join)
    moreover have "sublist (join '', '' ms)
        ((''El nombre ['' @ n @ ''] se encuentra en mas de un mapa (['') @ join '', '' ms @
         '']) al mismo tiempo.'')"
      by (rule sublist_appendI)
    ultimately have "sublist mp
        ((''El nombre ['' @ n @ ''] se encuentra en mas de un mapa (['') @ join '', '' ms @
         '']) al mismo tiempo.'')"
      by (rule sublist_order.order_trans)
    then show "sublist mp (many_maps_msg n ms)" by (simp add: many_maps_msg_def)
  qed
qed

lemma not_in_geo_msg_lists:
  "sublist n (not_in_geo_msg n ms) \<and> (\<forall>mp\<in>set ms. sublist mp (not_in_geo_msg n ms))"
proof
  have "sublist n (''El nombre ['' @ n @
          (''] en los mapas ['' @ join '', '' ms @
           ''] no existe en las geometrias bases de arcos y nodos.''))"
    by (rule sublist_appendI)
  then show "sublist n (not_in_geo_msg n ms)" by (simp add: not_in_geo_msg_def)
next
  show "\<forall>mp\<in>set ms. sublist mp (not_in_geo_msg n ms)"
  proof
    fix mp assume "mp \<in> set ms"
    then have "sublist mp (join '', '' ms)" by (rule sublist_join)
    moreover have "sublist (join '', '' ms)
        ((''El nombre ['' @ n @ ''] en los mapas ['') @ join '', '' ms @
         ''] no existe en las geometrias bases de arcos y nodos.'')"
      by (rule sublist_appendI)
    ultimately have "sublist mp
        ((''El nombre ['' @ n @ ''] en los mapas ['') @ join '', '' ms @
         ''] no existe en las geometrias bases de arcos y nodos.'')"
      by (rule sublist_order.order_trans)
    then show "sublist mp (not_in_geo_msg n ms)" by (simp add: not_in_geo_msg_def)
  qed
qed

lemma iterated_members:
  "fset_of_list (it S) = S \<Longrightarrow> mp |\<in>| S \<Longrightarrow> mp \<in> set (it S)"
  by (metis fset_of_list_elem)

lemma fold_append_errors:
  "fold (\<lambda>(n, ms) st. if P n ms then fp_append_error (msg n ms) (feature_type st) False c st
                       else st) xs s
   = s\<lparr>summary := (summary s)\<lparr>errors := errors (summary s) @
         map (\<lambda>(n, ms). mk_error (feature_type s) c (msg n ms)) (filter (\<lambda>(n, ms). P n ms) xs)\<rparr>\<rparr>"
proof (induction xs arbitrary: s)
  case Nil
  show ?case by simp
next
  case (Cons x xs)
  obtain n ms where x: "x = (n, ms)" by (cases x)
  show ?case
    by (simp add: x Cons.IH fp_append_error_def em_append_def mk_error_def)
qed

lemma finish_check_result:
  assumes "str_format env (get_process_msg env name) [] = Inr m"
  shows "\<exists>s'. finish_check env name c s =
            Inr ((em_get_errors (feature_type s) c (errors (summary s)) \<noteq> [],
                  em_get_errors (feature_type s) c (errors (summary s))), s') \<and>
          errors (summary s') = errors (summary s) \<and>
          feature_type s' = feature_type s \<and>
          features_by_map s' = features_by_map s \<and>
          process_lines (summary s') = process_lines (summary s) @
            [\<lparr>line = m, status = (if check_errors c s then ''ERROR'' else ''OK'')\<rparr>]"
  using assms
  by (simp add: finish_check_def set_process_line_def check_errors_def fp_get_errors_def)

text \<open>
  C7. Uniqueness across maps. When the process line of the check can be written,
  \<open>check_names_between_maps\<close> returns, and what it has added to the ledger is, in the
  order of the name index, one error with code "11" for each name of the index that
  has more than one map, and nothing for a name with one map. The index is a dictionary,
  so each name has one entry and one error. The message of a name contains the name and,
  the iteration of a set giving its elements, every map of the name. The returned list
  holds the code "11" errors of the feature type, and the flag says whether there is
  one.
\<close>

theorem between_maps_errors:
  assumes "str_format env (get_process_msg env ''check_names_between_maps'') [] = Inr m"
    and "\<forall>x\<in>set (features_by_map (load_feature_names env s)).
           fset_of_list (set_iter env (snd x)) = snd x"
  shows "\<exists>flag errs s'.
           check_names_between_maps env s = Inr ((flag, errs), s') \<and>
           features_by_map s' = features_by_map (load_feature_names env s) \<and>
           feature_type s' = feature_type (load_feature_names env s) \<and>
           errors (summary s') =
             errors (summary (load_feature_names env s)) @
             map (\<lambda>(n, ms). \<lparr>err_typ = feature_type (load_feature_names env s), err_code = ''11'',
                               err_msg = many_maps_msg n (set_iter env ms), err_is_warn = False\<rparr>)
                 (filter (\<lambda>(n, ms). fcard ms > 1) (features_by_map (load_feature_names env s))) \<and>
           (\<forall>x\<in>set (features_by_map (load_feature_names env s)).
              sublist (fst x) (many_maps_msg (fst x) (set_iter env (snd x))) \<and>
              (\<forall>mp. mp |\<in>| snd x \<longrightarrow>
                 sublist mp (many_maps_msg (fst x) (set_iter env (snd x))))) \<and>
           errs = em_get_errors (feature_type s') ''11'' (errors (summary s')) \<and>
           flag = (errs \<noteq> [])"
proof -
  let ?s2 = "load_feature_names env s"
  let ?cm = "filter (\<lambda>(n, ms). fcard ms > 1) (features_by_map ?s2)"
  let ?msg = "\<lambda>n ms. many_maps_msg n (set_iter env ms)"
  let ?s3 = "fold (\<lambda>(feature_name, ms) st.
                       fp_append_error (many_maps_msg feature_name (set_iter env ms))
                         (feature_type st) False ''11'' st) ?cm ?s2"
  let ?new = "map (\<lambda>(n, ms). \<lparr>err_typ = feature_type ?s2, err_code = ''11'',
                               err_msg = many_maps_msg n (set_iter env ms), err_is_warn = False\<rparr>) ?cm"
  have s3: "?s3 = ?s2\<lparr>summary := (summary ?s2)\<lparr>errors := errors (summary ?s2) @
         map (\<lambda>(n, ms). mk_error (feature_type ?s2) ''11'' (?msg n ms)) ?cm\<rparr>\<rparr>"
    using fold_append_errors [of "\<lambda>n ms. True" ?msg "''11''" ?cm ?s2] by simp
  obtain s' where fin: "finish_check env ''check_names_between_maps'' ''11'' ?s3 =
            Inr ((em_get_errors (feature_type ?s3) ''11'' (errors (summary ?s3)) \<noteq> [],
                  em_get_errors (feature_type ?s3) ''11'' (errors (summary ?s3))), s')"
    and e: "errors (summary s') = errors (summary ?s3)"
    and f: "features_by_map s' = features_by_map ?s3"
    and t: "feature_type s' = feature_type ?s3"
    using finish_check_result [OF assms(1)] by blast
  have e3: "errors (summary ?s3) = errors (summary ?s2) @ ?new"
    by (subst s3) (simp add: mk_error_def)
  have f3: "features_by_map ?s3 = features_by_map ?s2"
    by (subst s3) simp
  have t3: "feature_type ?s3 = feature_type ?s2"
    by (subst s3) simp
  have r0: "feature_type s' = feature_type ?s2"
    using t t3 by (rule trans)
  have chk: "check_names_between_maps env s =
               finish_check env ''check_names_between_maps'' ''11'' ?s3"
    by (simp add: check_names_between_maps_def Let_def)
  have r1: "check_names_between_maps env s =
          Inr ((em_get_errors (feature_type ?s3) ''11'' (errors (summary ?s3)) \<noteq> [],
                em_get_errors (feature_type ?s3) ''11'' (errors (summary ?s3))), s')"
    using chk fin by (rule trans)
  have r2: "features_by_map s' = features_by_map ?s2"
    using f f3 by (rule trans)
  have r3: "errors (summary s') = errors (summary ?s2) @ ?new"
    using e e3 by (rule trans)
  have r4: "\<forall>x\<in>set (features_by_map ?s2).
              sublist (fst x) (many_maps_msg (fst x) (set_iter env (snd x))) \<and>
              (\<forall>mp. mp |\<in>| snd x \<longrightarrow>
                 sublist mp (many_maps_msg (fst x) (set_iter env (snd x))))"
  proof (intro ballI conjI allI impI)
    fix x assume "x \<in> set (features_by_map ?s2)"
    show "sublist (fst x) (many_maps_msg (fst x) (set_iter env (snd x)))"
      using many_maps_msg_lists by blast
  next
    fix x mp assume x: "x \<in> set (features_by_map ?s2)" and mp: "mp |\<in>| snd x"
    from assms(2) x have "fset_of_list (set_iter env (snd x)) = snd x" by blast
    then have "mp \<in> set (set_iter env (snd x))" using mp by (rule iterated_members)
    then show "sublist mp (many_maps_msg (fst x) (set_iter env (snd x)))"
      using many_maps_msg_lists by blast
  qed
  show ?thesis using r0 r1 r2 r3 r4 e t by auto
qed

text \<open>
  C8. Existence in the reference topology. When the process line of the check can be
  written, \<open>check_names_with_geo\<close> returns, and what it has added to the ledger is, in
  the order of the name index, one error with code "10" for each name whose element id
  is not truthy; in particular every name for which the topology has no element id has
  its error in the ledger. The message of a name contains the name and, the iteration of
  a set giving its elements, every map that references it. The returned list holds the
  code "10" errors of the feature type, and the returned flag says whether that list is
  non-empty.
\<close>

theorem with_geo_errors:
  assumes "str_format env (get_process_msg env ''check_names_with_geo'') [] = Inr m"
    and "\<forall>x\<in>set (features_by_map (load_feature_names env s)).
           fset_of_list (set_iter env (snd x)) = snd x"
  shows "\<exists>flag errs s'.
           check_names_with_geo env s = Inr ((flag, errs), s') \<and>
           features_by_map s' = features_by_map (load_feature_names env s) \<and>
           feature_type s' = feature_type (load_feature_names env s) \<and>
           errors (summary s') =
             errors (summary (load_feature_names env s)) @
             map (\<lambda>(n, ms). \<lparr>err_typ = feature_type (load_feature_names env s), err_code = ''10'',
                               err_msg = not_in_geo_msg n (set_iter env ms), err_is_warn = False\<rparr>)
                 (filter (\<lambda>(n, ms). \<not> truthy (get_feature_id_by_name env n))
                    (features_by_map (load_feature_names env s))) \<and>
           (\<forall>x\<in>set (features_by_map (load_feature_names env s)).
              get_feature_id_by_name env (fst x) = PNone \<longrightarrow>
              \<lparr>err_typ = feature_type (load_feature_names env s), err_code = ''10'',
               err_msg = not_in_geo_msg (fst x) (set_iter env (snd x)), err_is_warn = False\<rparr>
                \<in> set (errors (summary s'))) \<and>
           (\<forall>x\<in>set (features_by_map (load_feature_names env s)).
              sublist (fst x) (not_in_geo_msg (fst x) (set_iter env (snd x))) \<and>
              (\<forall>mp. mp |\<in>| snd x \<longrightarrow>
                 sublist mp (not_in_geo_msg (fst x) (set_iter env (snd x))))) \<and>
           errs = em_get_errors (feature_type s') ''10'' (errors (summary s')) \<and>
           flag = (errs \<noteq> [])"
proof -
  let ?s2 = "load_feature_names env s"
  let ?P = "\<lambda>n (ms :: string fset). \<not> truthy (get_feature_id_by_name env n)"
  let ?msg = "\<lambda>n ms. not_in_geo_msg n (set_iter env ms)"
  let ?s3 = "fold (\<lambda>(feature_name, ms) st.
                       if \<not> truthy (get_feature_id_by_name env feature_name)
                       then fp_append_error (not_in_geo_msg feature_name (set_iter env ms))
                              (feature_type st) False ''10'' st
                       else st) (features_by_map ?s2) ?s2"
  let ?new = "map (\<lambda>(n, ms). \<lparr>err_typ = feature_type ?s2, err_code = ''10'',
                               err_msg = not_in_geo_msg n (set_iter env ms), err_is_warn = False\<rparr>)
                 (filter (\<lambda>(n, ms). \<not> truthy (get_feature_id_by_name env n)) (features_by_map ?s2))"
  have s3: "?s3 = ?s2\<lparr>summary := (summary ?s2)\<lparr>errors := errors (summary ?s2) @
         map (\<lambda>(n, ms). mk_error (feature_type ?s2) ''10'' (?msg n ms))
             (filter (\<lambda>(n, ms). ?P n ms) (features_by_map ?s2))\<rparr>\<rparr>"
    using fold_append_errors [of ?P ?msg "''10''" "features_by_map ?s2" ?s2] by simp
  obtain s' where fin: "finish_check env ''check_names_with_geo'' ''10'' ?s3 =
            Inr ((em_get_errors (feature_type ?s3) ''10'' (errors (summary ?s3)) \<noteq> [],
                  em_get_errors (feature_type ?s3) ''10'' (errors (summary ?s3))), s')"
    and e: "errors (summary s') = errors (summary ?s3)"
    and f: "features_by_map s' = features_by_map ?s3"
    and t: "feature_type s' = feature_type ?s3"
    using finish_check_result [OF assms(1)] by blast
  have e3: "errors (summary ?s3) = errors (summary ?s2) @ ?new"
    by (subst s3) (simp add: mk_error_def)
  have f3: "features_by_map ?s3 = features_by_map ?s2"
    by (subst s3) simp
  have t3: "feature_type ?s3 = feature_type ?s2"
    by (subst s3) simp
  have r0: "feature_type s' = feature_type ?s2"
    using t t3 by (rule trans)
  have chk: "check_names_with_geo env s = finish_check env ''check_names_with_geo'' ''10'' ?s3"
    by (simp add: check_names_with_geo_def Let_def)
  have r1: "check_names_with_geo env s =
          Inr ((em_get_errors (feature_type ?s3) ''10'' (errors (summary ?s3)) \<noteq> [],
                em_get_errors (feature_type ?s3) ''10'' (errors (summary ?s3))), s')"
    using chk fin by (rule trans)
  have r2: "features_by_map s' = features_by_map ?s2"
    using f f3 by (rule trans)
  have r3: "errors (summary s') = errors (summary ?s2) @ ?new"
    using e e3 by (rule trans)
  have r4: "\<forall>x\<in>set (features_by_map ?s2).
              get_feature_id_by_name env (fst x) = PNone \<longrightarrow>
              \<lparr>err_typ = feature_type ?s2, err_code = ''10'',
               err_msg = not_in_geo_msg (fst x) (set_iter env (snd x)), err_is_warn = False\<rparr>
                \<in> set (errors (summary s'))"
  proof (intro ballI impI)
    fix x assume x: "x \<in> set (features_by_map ?s2)"
      and none: "get_feature_id_by_name env (fst x) = PNone"
    have "x \<in> set (filter (\<lambda>(n, ms). \<not> truthy (get_feature_id_by_name env n))
                     (features_by_map ?s2))"
      using x none by (auto simp: case_prod_beta)
    then show "\<lparr>err_typ = feature_type ?s2, err_code = ''10'',
               err_msg = not_in_geo_msg (fst x) (set_iter env (snd x)), err_is_warn = False\<rparr>
                \<in> set (errors (summary s'))"
      unfolding r3 by (force simp: case_prod_beta)
  qed
  have r5: "\<forall>x\<in>set (features_by_map ?s2).
              sublist (fst x) (not_in_geo_msg (fst x) (set_iter env (snd x))) \<and>
              (\<forall>mp. mp |\<in>| snd x \<longrightarrow>
                 sublist mp (not_in_geo_msg (fst x) (set_iter env (snd x))))"
  proof (intro ballI conjI allI impI)
    fix x assume "x \<in> set (features_by_map ?s2)"
    show "sublist (fst x) (not_in_geo_msg (fst x) (set_iter env (snd x)))"
      using not_in_geo_msg_lists by blast
  next
    fix x mp assume x: "x \<in> set (features_by_map ?s2)" and mp: "mp |\<in>| snd x"
    from assms(2) x have "fset_of_list (set_iter env (snd x)) = snd x" by blast
    then have "mp \<in> set (set_iter env (snd x))" using mp by (rule iterated_members)
    then show "sublist mp (not_in_geo_msg (fst x) (set_iter env (snd x)))"
      using not_in_geo_msg_lists by blast
  qed
  show ?thesis using r0 r1 r2 r3 r4 r5 e t by auto
qed

text \<open>
  An instance of both checks: two imported maps, \<open>RiverA\<close> in both and \<open>RiverB\<close> in
  one, the topology knowing \<open>RiverA\<close> only, in a run that iterates sets of map names
  alphabetically.
\<close>

theorem between_maps_errors_witness:
  "\<exists>flag errs s'.
     check_names_between_maps
       \<lparr>get_process_msg = (\<lambda>n. n), str_format = (\<lambda>t d. Inr t),
       set_data_from_geo = (\<lambda>s. s),
       get_feature_id_by_name = (\<lambda>n. if n = ''RiverA'' then PInt 4 else PNone),
       viter_areas = (\<lambda>m. if m = ''rivers_main''
                            then [(Some 1, Some ''RiverA''), (Some 2, Some ''RiverB'')]
                            else if m = ''rivers_alt'' then [(Some 1, Some ''RiverA'')]
                            else []),
       set_iter = (\<lambda>S. (if ''rivers_alt'' |\<in>| S then [''rivers_alt''] else []) @
                        (if ''rivers_main'' |\<in>| S then [''rivers_main''] else []))\<rparr>
       ((init_process ''RiverProcess'' ''river'' (\<lambda>p. []))
        \<lparr>map_names := [(''main'', \<lparr>map_name = ''rivers_main'', imported = True\<rparr>),
                        (''alt'', \<lparr>map_name = ''rivers_alt'', imported = True\<rparr>)]\<rparr>) = Inr ((flag, errs), s') \<and>
     features_by_map s' = [(''RiverA'', {|''rivers_alt'', ''rivers_main''|}), (''RiverB'', {|''rivers_main''|})] \<and>
     errors (summary s') =
       [\<lparr>err_typ = ''river'', err_code = ''11'',
         err_msg = ''El nombre [RiverA] se encuentra en mas de un mapa ([rivers_alt, rivers_main]) '' @
           ''al mismo tiempo.'',
         err_is_warn = False\<rparr>] \<and>
     errs = [''El nombre [RiverA] se encuentra en mas de un mapa ([rivers_alt, rivers_main]) '' @
           ''al mismo tiempo.''] \<and> flag"
proof -
  have h: "str_format \<lparr>get_process_msg = (\<lambda>n. n), str_format = (\<lambda>t d. Inr t),
       set_data_from_geo = (\<lambda>s. s),
       get_feature_id_by_name = (\<lambda>n. if n = ''RiverA'' then PInt 4 else PNone),
       viter_areas = (\<lambda>m. if m = ''rivers_main''
                            then [(Some 1, Some ''RiverA''), (Some 2, Some ''RiverB'')]
                            else if m = ''rivers_alt'' then [(Some 1, Some ''RiverA'')]
                            else []),
       set_iter = (\<lambda>S. (if ''rivers_alt'' |\<in>| S then [''rivers_alt''] else []) @
                        (if ''rivers_main'' |\<in>| S then [''rivers_main''] else []))\<rparr>
             (get_process_msg \<lparr>get_process_msg = (\<lambda>n. n), str_format = (\<lambda>t d. Inr t),
       set_data_from_geo = (\<lambda>s. s),
       get_feature_id_by_name = (\<lambda>n. if n = ''RiverA'' then PInt 4 else PNone),
       viter_areas = (\<lambda>m. if m = ''rivers_main''
                            then [(Some 1, Some ''RiverA''), (Some 2, Some ''RiverB'')]
                            else if m = ''rivers_alt'' then [(Some 1, Some ''RiverA'')]
                            else []),
       set_iter = (\<lambda>S. (if ''rivers_alt'' |\<in>| S then [''rivers_alt''] else []) @
                        (if ''rivers_main'' |\<in>| S then [''rivers_main''] else []))\<rparr> ''check_names_between_maps'') [] = Inr ''check_names_between_maps''"
    by simp
  have l: "load_feature_names
       \<lparr>get_process_msg = (\<lambda>n. n), str_format = (\<lambda>t d. Inr t),
       set_data_from_geo = (\<lambda>s. s),
       get_feature_id_by_name = (\<lambda>n. if n = ''RiverA'' then PInt 4 else PNone),
       viter_areas = (\<lambda>m. if m = ''rivers_main''
                            then [(Some 1, Some ''RiverA''), (Some 2, Some ''RiverB'')]
                            else if m = ''rivers_alt'' then [(Some 1, Some ''RiverA'')]
                            else []),
       set_iter = (\<lambda>S. (if ''rivers_alt'' |\<in>| S then [''rivers_alt''] else []) @
                        (if ''rivers_main'' |\<in>| S then [''rivers_main''] else []))\<rparr>
       ((init_process ''RiverProcess'' ''river'' (\<lambda>p. []))
        \<lparr>map_names := [(''main'', \<lparr>map_name = ''rivers_main'', imported = True\<rparr>),
                        (''alt'', \<lparr>map_name = ''rivers_alt'', imported = True\<rparr>)]\<rparr>) =
     ((init_process ''RiverProcess'' ''river'' (\<lambda>p. []))
        \<lparr>map_names := [(''main'', \<lparr>map_name = ''rivers_main'', imported = True\<rparr>),
                        (''alt'', \<lparr>map_name = ''rivers_alt'', imported = True\<rparr>)]\<rparr>)\<lparr>features_by_map := [(''RiverA'', {|''rivers_alt'', ''rivers_main''|}), (''RiverB'', {|''rivers_main''|})]\<rparr>"
    by (simp add: load_feature_names_def set_feature_names_in_maps_def add_feature_name_def
          init_process_def finsert_commute)
  have it: "\<forall>x\<in>set (features_by_map (load_feature_names
       \<lparr>get_process_msg = (\<lambda>n. n), str_format = (\<lambda>t d. Inr t),
       set_data_from_geo = (\<lambda>s. s),
       get_feature_id_by_name = (\<lambda>n. if n = ''RiverA'' then PInt 4 else PNone),
       viter_areas = (\<lambda>m. if m = ''rivers_main''
                            then [(Some 1, Some ''RiverA''), (Some 2, Some ''RiverB'')]
                            else if m = ''rivers_alt'' then [(Some 1, Some ''RiverA'')]
                            else []),
       set_iter = (\<lambda>S. (if ''rivers_alt'' |\<in>| S then [''rivers_alt''] else []) @
                        (if ''rivers_main'' |\<in>| S then [''rivers_main''] else []))\<rparr>
       ((init_process ''RiverProcess'' ''river'' (\<lambda>p. []))
        \<lparr>map_names := [(''main'', \<lparr>map_name = ''rivers_main'', imported = True\<rparr>),
                        (''alt'', \<lparr>map_name = ''rivers_alt'', imported = True\<rparr>)]\<rparr>))).
       fset_of_list (set_iter \<lparr>get_process_msg = (\<lambda>n. n), str_format = (\<lambda>t d. Inr t),
       set_data_from_geo = (\<lambda>s. s),
       get_feature_id_by_name = (\<lambda>n. if n = ''RiverA'' then PInt 4 else PNone),
       viter_areas = (\<lambda>m. if m = ''rivers_main''
                            then [(Some 1, Some ''RiverA''), (Some 2, Some ''RiverB'')]
                            else if m = ''rivers_alt'' then [(Some 1, Some ''RiverA'')]
                            else []),
       set_iter = (\<lambda>S. (if ''rivers_alt'' |\<in>| S then [''rivers_alt''] else []) @
                        (if ''rivers_main'' |\<in>| S then [''rivers_main''] else []))\<rparr> (snd x)) = snd x"
    unfolding l by (simp add: finsert_commute)
  from between_maps_errors [OF h it]
  show ?thesis
    unfolding l
    by (auto simp: init_process_def em_get_errors_def em_query_def many_maps_msg_def
          not_in_geo_msg_def fcard_finsert_if finsert_commute)
qed

theorem with_geo_errors_witness:
  "\<exists>flag errs s'.
     check_names_with_geo
       \<lparr>get_process_msg = (\<lambda>n. n), str_format = (\<lambda>t d. Inr t),
       set_data_from_geo = (\<lambda>s. s),
       get_feature_id_by_name = (\<lambda>n. if n = ''RiverA'' then PInt 4 else PNone),
       viter_areas = (\<lambda>m. if m = ''rivers_main''
                            then [(Some 1, Some ''RiverA''), (Some 2, Some ''RiverB'')]
                            else if m = ''rivers_alt'' then [(Some 1, Some ''RiverA'')]
                            else []),
       set_iter = (\<lambda>S. (if ''rivers_alt'' |\<in>| S then [''rivers_alt''] else []) @
                        (if ''rivers_main'' |\<in>| S then [''rivers_main''] else []))\<rparr>
       ((init_process ''RiverProcess'' ''river'' (\<lambda>p. []))
        \<lparr>map_names := [(''main'', \<lparr>map_name = ''rivers_main'', imported = True\<rparr>),
                        (''alt'', \<lparr>map_name = ''rivers_alt'', imported = True\<rparr>)]\<rparr>) = Inr ((flag, errs), s') \<and>
     features_by_map s' = [(''RiverA'', {|''rivers_alt'', ''rivers_main''|}), (''RiverB'', {|''rivers_main''|})] \<and>
     errors (summary s') =
       [\<lparr>err_typ = ''river'', err_code = ''10'',
         err_msg = ''El nombre [RiverB] en los mapas [rivers_main] no existe en las geometrias '' @
           ''bases de arcos y nodos.'',
         err_is_warn = False\<rparr>] \<and>
     errs = [''El nombre [RiverB] en los mapas [rivers_main] no existe en las geometrias '' @
           ''bases de arcos y nodos.''] \<and> flag"
proof -
  have h: "str_format \<lparr>get_process_msg = (\<lambda>n. n), str_format = (\<lambda>t d. Inr t),
       set_data_from_geo = (\<lambda>s. s),
       get_feature_id_by_name = (\<lambda>n. if n = ''RiverA'' then PInt 4 else PNone),
       viter_areas = (\<lambda>m. if m = ''rivers_main''
                            then [(Some 1, Some ''RiverA''), (Some 2, Some ''RiverB'')]
                            else if m = ''rivers_alt'' then [(Some 1, Some ''RiverA'')]
                            else []),
       set_iter = (\<lambda>S. (if ''rivers_alt'' |\<in>| S then [''rivers_alt''] else []) @
                        (if ''rivers_main'' |\<in>| S then [''rivers_main''] else []))\<rparr>
             (get_process_msg \<lparr>get_process_msg = (\<lambda>n. n), str_format = (\<lambda>t d. Inr t),
       set_data_from_geo = (\<lambda>s. s),
       get_feature_id_by_name = (\<lambda>n. if n = ''RiverA'' then PInt 4 else PNone),
       viter_areas = (\<lambda>m. if m = ''rivers_main''
                            then [(Some 1, Some ''RiverA''), (Some 2, Some ''RiverB'')]
                            else if m = ''rivers_alt'' then [(Some 1, Some ''RiverA'')]
                            else []),
       set_iter = (\<lambda>S. (if ''rivers_alt'' |\<in>| S then [''rivers_alt''] else []) @
                        (if ''rivers_main'' |\<in>| S then [''rivers_main''] else []))\<rparr> ''check_names_with_geo'') [] = Inr ''check_names_with_geo''"
    by simp
  have l: "load_feature_names
       \<lparr>get_process_msg = (\<lambda>n. n), str_format = (\<lambda>t d. Inr t),
       set_data_from_geo = (\<lambda>s. s),
       get_feature_id_by_name = (\<lambda>n. if n = ''RiverA'' then PInt 4 else PNone),
       viter_areas = (\<lambda>m. if m = ''rivers_main''
                            then [(Some 1, Some ''RiverA''), (Some 2, Some ''RiverB'')]
                            else if m = ''rivers_alt'' then [(Some 1, Some ''RiverA'')]
                            else []),
       set_iter = (\<lambda>S. (if ''rivers_alt'' |\<in>| S then [''rivers_alt''] else []) @
                        (if ''rivers_main'' |\<in>| S then [''rivers_main''] else []))\<rparr>
       ((init_process ''RiverProcess'' ''river'' (\<lambda>p. []))
        \<lparr>map_names := [(''main'', \<lparr>map_name = ''rivers_main'', imported = True\<rparr>),
                        (''alt'', \<lparr>map_name = ''rivers_alt'', imported = True\<rparr>)]\<rparr>) =
     ((init_process ''RiverProcess'' ''river'' (\<lambda>p. []))
        \<lparr>map_names := [(''main'', \<lparr>map_name = ''rivers_main'', imported = True\<rparr>),
                        (''alt'', \<lparr>map_name = ''rivers_alt'', imported = True\<rparr>)]\<rparr>)\<lparr>features_by_map := [(''RiverA'', {|''rivers_alt'', ''rivers_main''|}), (''RiverB'', {|''rivers_main''|})]\<rparr>"
    by (simp add: load_feature_names_def set_feature_names_in_maps_def add_feature_name_def
          init_process_def finsert_commute)
  have it: "\<forall>x\<in>set (features_by_map (load_feature_names
       \<lparr>get_process_msg = (\<lambda>n. n), str_format = (\<lambda>t d. Inr t),
       set_data_from_geo = (\<lambda>s. s),
       get_feature_id_by_name = (\<lambda>n. if n = ''RiverA'' then PInt 4 else PNone),
       viter_areas = (\<lambda>m. if m = ''rivers_main''
                            then [(Some 1, Some ''RiverA''), (Some 2, Some ''RiverB'')]
                            else if m = ''rivers_alt'' then [(Some 1, Some ''RiverA'')]
                            else []),
       set_iter = (\<lambda>S. (if ''rivers_alt'' |\<in>| S then [''rivers_alt''] else []) @
                        (if ''rivers_main'' |\<in>| S then [''rivers_main''] else []))\<rparr>
       ((init_process ''RiverProcess'' ''river'' (\<lambda>p. []))
        \<lparr>map_names := [(''main'', \<lparr>map_name = ''rivers_main'', imported = True\<rparr>),
                        (''alt'', \<lparr>map_name = ''rivers_alt'', imported = True\<rparr>)]\<rparr>))).
       fset_of_list (set_iter \<lparr>get_process_msg = (\<lambda>n. n), str_format = (\<lambda>t d. Inr t),
       set_data_from_geo = (\<lambda>s. s),
       get_feature_id_by_name = (\<lambda>n. if n = ''RiverA'' then PInt 4 else PNone),
       viter_areas = (\<lambda>m. if m = ''rivers_main''
                            then [(Some 1, Some ''RiverA''), (Some 2, Some ''RiverB'')]
                            else if m = ''rivers_alt'' then [(Some 1, Some ''RiverA'')]
                            else []),
       set_iter = (\<lambda>S. (if ''rivers_alt'' |\<in>| S then [''rivers_alt''] else []) @
                        (if ''rivers_main'' |\<in>| S then [''rivers_main''] else []))\<rparr> (snd x)) = snd x"
    unfolding l by (simp add: finsert_commute)
  from with_geo_errors [OF h it]
  show ?thesis
    unfolding l
    by (auto simp: init_process_def em_get_errors_def em_query_def many_maps_msg_def
          not_in_geo_msg_def fcard_finsert_if finsert_commute)
qed

section \<open>Main columns\<close>

lemma update_fresh: "k \<notin> fst ` set al \<Longrightarrow> AList.update k v al = al @ [(k, v)]"
  by (induction al) auto

lemma fold_update_fresh:
  "distinct (map fst pairs) \<Longrightarrow> fst ` set pairs \<inter> fst ` set acc = {} \<Longrightarrow>
   fold (\<lambda>(k, v) d. AList.update k v d) pairs acc = acc @ pairs"
proof (induction pairs arbitrary: acc)
  case Nil
  show ?case by simp
next
  case (Cons p pairs)
  obtain k v where p: "p = (k, v)" by (cases p)
  have fresh: "k \<notin> fst ` set acc" using Cons.prems(2) by (auto simp: p)
  have "fold (\<lambda>(k, v) d. AList.update k v d) pairs (acc @ [(k, v)]) = (acc @ [(k, v)]) @ pairs"
    using Cons.prems by (intro Cons.IH) (auto simp: p)
  then show ?case by (simp add: p update_fresh [OF fresh])
qed

lemma py_dict_distinct: "distinct (map fst pairs) \<Longrightarrow> py_dict pairs = pairs"
  using fold_update_fresh [of pairs "[]"] by (simp add: py_dict_def)

lemma py_range_0: "py_range 0 = []"
  by (simp add: py_range_def)

lemma py_index_nat: "j < length xs \<Longrightarrow> py_index xs (int j) = Inr (xs ! j)"
  by (simp add: py_index_def)

lemma nth_pairs_zip:
  "k \<le> length xs \<Longrightarrow> k \<le> length ys \<Longrightarrow>
   map (\<lambda>j. (xs ! j, g (ys ! j))) [0..<k] = zip (take k xs) (map g (take k ys))"
  by (rule nth_equalityI) simp_all

lemma top_pairs:
  fixes col_names :: "string list" and col_data :: "ref list" and h :: store
  assumes "k \<le> length col_names" and "k \<le> length col_data"
    and "\<forall>d\<in>set (take k col_data). map_of (h d) ''name'' \<noteq> None"
  shows "map_err
           (\<lambda>i. case py_index col_names i of
                   Inl e \<Rightarrow> Inl e
                 | Inr cn \<Rightarrow>
                     (case py_index col_data i of
                        Inl e \<Rightarrow> Inl e
                      | Inr d \<Rightarrow>
                          (case getitem (h d) ''name'' of
                             Inl e \<Rightarrow> Inl e
                           | Inr v \<Rightarrow> Inr (cn, v))))
           (py_range (int k))
         = Inr (zip (take k col_names) (map (\<lambda>d. dict_get (h d) ''name'') (take k col_data)))"
proof -
  let ?f = "\<lambda>i. case py_index col_names i of
                   Inl e \<Rightarrow> Inl e
                 | Inr cn \<Rightarrow>
                     (case py_index col_data i of
                        Inl e \<Rightarrow> Inl e
                      | Inr d \<Rightarrow>
                          (case getitem (h d) ''name'' of
                             Inl e \<Rightarrow> (Inl e :: py_error + string \<times> pyval)
                           | Inr v \<Rightarrow> Inr (cn, v)))"
  let ?g = "\<lambda>i. (col_names ! nat i, dict_get (h (col_data ! nat i)) ''name'')"
  have pt: "?f i = Inr (?g i)" if "i \<in> set (py_range (int k))" for i
  proof -
    from that obtain j where i: "i = int j" and j: "j < k" by (auto simp: py_range_def)
    have "col_data ! j \<in> set (take k col_data)"
      using j assms(2) by (metis in_set_conv_nth length_take min.absorb2 nth_take)
    then obtain v where "map_of (h (col_data ! j)) ''name'' = Some v" using assms(3) by blast
    then show ?thesis
      using j assms(1,2) by (simp add: i py_index_nat getitem_def dict_get_def)
  qed
  have "map_err ?f (py_range (int k)) = map_err (\<lambda>i. Inr (?g i)) (py_range (int k))"
    by (rule map_err_cong_set) (simp add: pt)
  also have "\<dots> = Inr (map ?g (py_range (int k)))" by (rule map_err_Inr)
  also have "map ?g (py_range (int k)) =
             map (\<lambda>j. (col_names ! j, dict_get (h (col_data ! j)) ''name'')) [0..<k]"
    by (simp add: py_range_def o_def)
  also have "\<dots> = zip (take k col_names) (map (\<lambda>d. dict_get (h d) ''name'') (take k col_data))"
    using assms(1,2) by (rule nth_pairs_zip [where g = "\<lambda>d. dict_get (h d) ''name''"])
  finally show ?thesis .
qed


text \<open>
  C1, as amended. For a cell whose resolved main-map candidate list has more entries
  than the column limit, \<open>get_data_to_save\<close> with \<open>main_data=True\<close> returns the
  mapping of the first \<open>cols_number\<close> column names to the names of the first
  \<open>cols_number\<close> candidates, in ranking order: exactly
  \<open>min(cols_number, available)\<close> columns. It appends one WARNING, naming the cell,
  the number of candidates and the limit, when the class of the processor is
  \<open>DemandSiteProcess\<close>, and leaves the ledger as it was for any other class.
\<close>

theorem capacity_truncation:
  fixes col_names :: "string list" and col_data :: "ref list"
  assumes cd: "get_cell_data_by_map main_map c s = Inr col_data"
    and lo: "0 \<le> cols_number" and hi: "cols_number < int (length col_data)"
    and names: "nat cols_number \<le> length col_names"
    and dist: "distinct (take (nat cols_number) col_names)"
    and named: "\<forall>d\<in>set (take (nat cols_number) col_data).
                  map_of (objects s d) ''name'' \<noteq> None"
  shows "\<exists>dat s'.
           get_data_to_save main_map col_names cols_number info_col_names secondary_maps c True s
             = Inr (dat, s') \<and>
           dat = zip (take (nat cols_number) col_names)
                     (map (\<lambda>d. dict_get (objects s d) ''name'')
                        (take (nat cols_number) col_data)) \<and>
           length dat = nat (min cols_number (int (length col_data))) \<and>
           map fst dat = take (nat cols_number) col_names \<and>
           s' = (if class_name s = ''DemandSiteProcess''
                 then fp_append_error (capacity_msg c main_map (length col_data) cols_number)
                        (feature_type s) True [] s
                 else s) \<and>
           errors (summary s') =
             errors (summary s) @
             (if class_name s = ''DemandSiteProcess''
              then [\<lparr>err_typ = feature_type s, err_code = [],
                     err_msg = capacity_msg c main_map (length col_data) cols_number,
                     err_is_warn = True\<rparr>]
              else [])"
proof -
  let ?k = "nat cols_number"
  let ?dat = "zip (take ?k col_names)
                  (map (\<lambda>d. dict_get (objects s d) ''name'') (take ?k col_data))"
  let ?s' = "if class_name s = ''DemandSiteProcess''
             then fp_append_error (capacity_msg c main_map (length col_data) cols_number)
                    (feature_type s) True [] s
             else s"
  have k: "int ?k = cols_number" using lo by simp
  have kd: "?k \<le> length col_data" using hi lo by simp
  have ne: "col_data \<noteq> []" using hi lo by auto
  have vts: "min cols_number (int (length col_data)) = cols_number" using hi by simp
  have pairs: "map_err
           (\<lambda>i. case py_index col_names i of
                   Inl e \<Rightarrow> Inl e
                 | Inr cn \<Rightarrow>
                     (case py_index col_data i of
                        Inl e \<Rightarrow> Inl e
                      | Inr d \<Rightarrow>
                          (case getitem (objects s d) ''name'' of
                             Inl e \<Rightarrow> Inl e
                           | Inr v \<Rightarrow> Inr (cn, v))))
           (py_range cols_number) = Inr ?dat"
    using top_pairs [OF names kd named] by (simp only: k)
  have keys: "map fst ?dat = take ?k col_names"
    using names kd by (simp add: map_fst_zip)
  have dict: "py_dict ?dat = ?dat"
    using dist by (intro py_dict_distinct) (simp only: keys)
  have len: "length ?dat = nat (min cols_number (int (length col_data)))"
    using names kd by (simp add: vts)
  have run: "main_data_to_save main_map col_names cols_number c s = Inr (?dat, ?s')"
    using ne hi
    by (simp add: main_data_to_save_def cd Let_def vts pairs dict py_range_0)
  have errs: "errors (summary ?s') =
             errors (summary s) @
             (if class_name s = ''DemandSiteProcess''
              then [\<lparr>err_typ = feature_type s, err_code = [],
                     err_msg = capacity_msg c main_map (length col_data) cols_number,
                     err_is_warn = True\<rparr>]
              else [])"
    by (simp add: fp_append_error_def em_append_def)
  show ?thesis
    using run keys len errs by (simp add: get_data_to_save_def)
qed


text \<open>
  The claim as first stated fails for a processor of another class: three candidates,
  two columns, a catchment processor; the two columns are filled and the state comes
  back unchanged, with an empty ledger.
\<close>

theorem capacity_warning_counterexample:
  "get_data_to_save ''catch_main'' [''CATCH1'', ''CATCH2''] 2 [] [] \<lparr>row = 1, col = 2\<rparr> True
     ((init_process ''CatchmentProcess'' ''catchment''
        ((\<lambda>p::nat. [])(0 := [(''name'', PStr ''x''), (''area'', PInt 9), (''map_name'', PStr ''catch_main'')],
           1 := [(''name'', PStr ''y''), (''area'', PInt 5), (''map_name'', PStr ''catch_main'')],
           2 := [(''name'', PStr ''z''), (''area'', PInt 2), (''map_name'', PStr ''catch_main'')])))
        \<lparr>cell_ids := [(\<lparr>row = 1, col = 2\<rparr>,
            \<lparr>number_of_data = 3, cell_id = PInt 7, rec_row = 1, rec_col = 2,
             rec_data = [0, 1, 2]\<rparr>)]\<rparr>)
   = Inr ([(''CATCH1'', PStr ''x''), (''CATCH2'', PStr ''y'')],
     ((init_process ''CatchmentProcess'' ''catchment''
        ((\<lambda>p::nat. [])(0 := [(''name'', PStr ''x''), (''area'', PInt 9), (''map_name'', PStr ''catch_main'')],
           1 := [(''name'', PStr ''y''), (''area'', PInt 5), (''map_name'', PStr ''catch_main'')],
           2 := [(''name'', PStr ''z''), (''area'', PInt 2), (''map_name'', PStr ''catch_main'')])))
        \<lparr>cell_ids := [(\<lparr>row = 1, col = 2\<rparr>,
            \<lparr>number_of_data = 3, cell_id = PInt 7, rec_row = 1, rec_col = 2,
             rec_data = [0, 1, 2]\<rparr>)]\<rparr>)) \<and>
   errors (summary
     ((init_process ''CatchmentProcess'' ''catchment''
        ((\<lambda>p::nat. [])(0 := [(''name'', PStr ''x''), (''area'', PInt 9), (''map_name'', PStr ''catch_main'')],
           1 := [(''name'', PStr ''y''), (''area'', PInt 5), (''map_name'', PStr ''catch_main'')],
           2 := [(''name'', PStr ''z''), (''area'', PInt 2), (''map_name'', PStr ''catch_main'')])))
        \<lparr>cell_ids := [(\<lparr>row = 1, col = 2\<rparr>,
            \<lparr>number_of_data = 3, cell_id = PInt 7, rec_row = 1, rec_col = 2,
             rec_data = [0, 1, 2]\<rparr>)]\<rparr>)) = []"
  by (simp add: get_data_to_save_def main_data_to_save_def get_cell_data_by_map_def getitem_def py_index_def py_range_def py_dict_def init_process_def upt_rec)

theorem capacity_truncation_witness:
  "get_data_to_save ''ds_main'' [''DS1'', ''DS2''] 2 [] [] \<lparr>row = 1, col = 2\<rparr> True
     ((init_process ''DemandSiteProcess'' ''demand_site''
        ((\<lambda>p::nat. [])(0 := [(''name'', PStr ''x''), (''area'', PInt 9), (''map_name'', PStr ''ds_main'')],
           1 := [(''name'', PStr ''y''), (''area'', PInt 5), (''map_name'', PStr ''ds_main'')],
           2 := [(''name'', PStr ''z''), (''area'', PInt 2), (''map_name'', PStr ''ds_main'')])))
        \<lparr>cell_ids := [(\<lparr>row = 1, col = 2\<rparr>,
            \<lparr>number_of_data = 3, cell_id = PInt 7, rec_row = 1, rec_col = 2,
             rec_data = [0, 1, 2]\<rparr>)]\<rparr>)
   = Inr ([(''DS1'', PStr ''x''), (''DS2'', PStr ''y'')],
       fp_append_error (capacity_msg \<lparr>row = 1, col = 2\<rparr> ''ds_main'' 3 2) ''demand_site'' True []
     ((init_process ''DemandSiteProcess'' ''demand_site''
        ((\<lambda>p::nat. [])(0 := [(''name'', PStr ''x''), (''area'', PInt 9), (''map_name'', PStr ''ds_main'')],
           1 := [(''name'', PStr ''y''), (''area'', PInt 5), (''map_name'', PStr ''ds_main'')],
           2 := [(''name'', PStr ''z''), (''area'', PInt 2), (''map_name'', PStr ''ds_main'')])))
        \<lparr>cell_ids := [(\<lparr>row = 1, col = 2\<rparr>,
            \<lparr>number_of_data = 3, cell_id = PInt 7, rec_row = 1, rec_col = 2,
             rec_data = [0, 1, 2]\<rparr>)]\<rparr>)) \<and>
   capacity_msg \<lparr>row = 1, col = 2\<rparr> ''ds_main'' 3 2 =
     ''Error en la [celda=(r=1, c=2)] para mapa [ds_main]. El numero a almacenar es [3], '' @
     ''pero no debe ser mayor que [2]. Se considera s'' @ [CHR 0xF3] @ ''lo [2]''"
proof -
  have cd: "get_cell_data_by_map ''ds_main'' \<lparr>row = 1, col = 2\<rparr>
     ((init_process ''DemandSiteProcess'' ''demand_site''
        ((\<lambda>p::nat. [])(0 := [(''name'', PStr ''x''), (''area'', PInt 9), (''map_name'', PStr ''ds_main'')],
           1 := [(''name'', PStr ''y''), (''area'', PInt 5), (''map_name'', PStr ''ds_main'')],
           2 := [(''name'', PStr ''z''), (''area'', PInt 2), (''map_name'', PStr ''ds_main'')])))
        \<lparr>cell_ids := [(\<lparr>row = 1, col = 2\<rparr>,
            \<lparr>number_of_data = 3, cell_id = PInt 7, rec_row = 1, rec_col = 2,
             rec_data = [0, 1, 2]\<rparr>)]\<rparr>)
     = Inr [0, 1, 2]"
    by (simp add: get_cell_data_by_map_def getitem_def init_process_def)
  have msg: "capacity_msg \<lparr>row = 1, col = 2\<rparr> ''ds_main'' 3 2 =
     ''Error en la [celda=(r=1, c=2)] para mapa [ds_main]. El numero a almacenar es [3], '' @
     ''pero no debe ser mayor que [2]. Se considera s'' @ [CHR 0xF3] @ ''lo [2]''"
    by code_simp
  have run: "get_data_to_save ''ds_main'' [''DS1'', ''DS2''] 2 [] [] \<lparr>row = 1, col = 2\<rparr> True
     ((init_process ''DemandSiteProcess'' ''demand_site''
        ((\<lambda>p::nat. [])(0 := [(''name'', PStr ''x''), (''area'', PInt 9), (''map_name'', PStr ''ds_main'')],
           1 := [(''name'', PStr ''y''), (''area'', PInt 5), (''map_name'', PStr ''ds_main'')],
           2 := [(''name'', PStr ''z''), (''area'', PInt 2), (''map_name'', PStr ''ds_main'')])))
        \<lparr>cell_ids := [(\<lparr>row = 1, col = 2\<rparr>,
            \<lparr>number_of_data = 3, cell_id = PInt 7, rec_row = 1, rec_col = 2,
             rec_data = [0, 1, 2]\<rparr>)]\<rparr>)
   = Inr ([(''DS1'', PStr ''x''), (''DS2'', PStr ''y'')],
       fp_append_error (capacity_msg \<lparr>row = 1, col = 2\<rparr> ''ds_main'' 3 2) ''demand_site'' True []
     ((init_process ''DemandSiteProcess'' ''demand_site''
        ((\<lambda>p::nat. [])(0 := [(''name'', PStr ''x''), (''area'', PInt 9), (''map_name'', PStr ''ds_main'')],
           1 := [(''name'', PStr ''y''), (''area'', PInt 5), (''map_name'', PStr ''ds_main'')],
           2 := [(''name'', PStr ''z''), (''area'', PInt 2), (''map_name'', PStr ''ds_main'')])))
        \<lparr>cell_ids := [(\<lparr>row = 1, col = 2\<rparr>,
            \<lparr>number_of_data = 3, cell_id = PInt 7, rec_row = 1, rec_col = 2,
             rec_data = [0, 1, 2]\<rparr>)]\<rparr>))"
    using capacity_truncation [OF cd, of 2 "[''DS1'', ''DS2'']" "[]" "[]"]
    by (simp add: init_process_def dict_get_def numeral_3_eq_3)
  show ?thesis using run msg by (rule conjI)
qed

section \<open>Superposition\<close>

lemma set_connection_records:
  "check_connection (node_name n1) (node_name n2) (set_connection n1 n2 s)"
  by (simp add: set_connection_def check_connection_def update_conv' split: option.splits)

lemma set_connection_keeps:
  "check_connection b x s \<Longrightarrow> check_connection b x (set_connection n1 n2 s)"
  by (auto simp: set_connection_def check_connection_def update_conv' split: option.splits if_splits)

lemma arc_check_keeps:
  "check_connection b x s \<Longrightarrow> check_connection b x (arc_check_operation arc_id a s)"
  by (auto simp: arc_check_operation_def set_connection_keeps split: option.splits)

lemma add_error_reported:
  "reported (add_error b x s) b' x' = (reported s b' x' \<or> (b' = b \<and> x' = x))"
  by (auto simp: add_error_def reported_def Let_def update_conv'
           split: option.splits if_splits)

lemma add_error_frame:
  "connections (add_error b x s) = connections s \<and>
   base_feature (add_error b x s) = base_feature s \<and>
   secondary_feature (add_error b x s) = secondary_feature s"
  by (simp add: add_error_def Let_def)

lemma check_connection_add_error:
  "check_connection b' x' (add_error b x s) = check_connection b' x' s"
  by (simp add: check_connection_def add_error_frame)

lemma inner_scan:
  "reported (fold (\<lambda>x st. if \<not> check_connection b x st then add_error b x st else st) xs s) b' x'
     = (reported s b' x' \<or> (b' = b \<and> x' \<in> set xs \<and> \<not> check_connection b x' s)) \<and>
   connections (fold (\<lambda>x st. if \<not> check_connection b x st then add_error b x st else st) xs s)
     = connections s"
proof (induction xs arbitrary: s)
  case Nil
  show ?case by simp
next
  case (Cons y ys)
  show ?case
    by (auto simp: Cons.IH add_error_reported add_error_frame check_connection_add_error)
qed

lemma check_connection_cong:
  "connections s' = connections s \<Longrightarrow> check_connection b x s' = check_connection b x s"
  by (simp add: check_connection_def)

lemma outer_scan:
  "reported (fold (\<lambda>b st. fold (\<lambda>x st'. if \<not> check_connection b x st' then add_error b x st'
                                           else st') xs st) bs s) b' x'
     = (reported s b' x' \<or> (b' \<in> set bs \<and> x' \<in> set xs \<and> \<not> check_connection b' x' s)) \<and>
   connections (fold (\<lambda>b st. fold (\<lambda>x st'. if \<not> check_connection b x st' then add_error b x st'
                                           else st') xs st) bs s)
     = connections s"
proof (induction bs arbitrary: s)
  case Nil
  show ?case by simp
next
  case (Cons b bs)
  let ?s1 = "fold (\<lambda>x st'. if \<not> check_connection b x st' then add_error b x st' else st') xs s"
  have c1: "connections ?s1 = connections s" using inner_scan [of b xs s] by simp
  have r1: "reported ?s1 b' x' = (reported s b' x' \<or> (b' = b \<and> x' \<in> set xs \<and> \<not> check_connection b x' s))"
    using inner_scan [of b xs s b' x'] by simp
  show ?case
    using Cons.IH [of ?s1] c1 r1 check_connection_cong [OF c1] by auto
qed


lemma arc_check_falsy:
  "\<not> truthy (src_id a) \<or> \<not> truthy (dst_id a) \<Longrightarrow> arc_check_operation arc_id a s = s"
  by (auto simp: arc_check_operation_def)


text \<open>
  C6, as amended. Superposition check. An arc whose two endpoint ids are present
  (truthy: not \<open>None\<close>, not \<open>0\<close>, not the empty string) and resolve, in the
  collected nodes, to a base-type and a secondary-type element records the connection
  from the name of the base element to the name of the secondary element, whichever of
  the two is the source (the two type ids being different); an arc with an endpoint id
  that is not truthy changes nothing, whatever nodes its ids resolve to; connections
  already recorded stay. After the scan of a cell, a pair is among the recorded errors
  exactly when it was there before or its base name and secondary name both occur in
  the cell and no connection is recorded for it: a co-occurring pair without a
  connection is reported, and a pair with a connection is not reported by the scan. The
  scan changes no connection.
\<close>

theorem superposition_connections:
  "(truthy (src_id a) \<and> truthy (dst_id a) \<and>
    map_of (nodes s) (src_id a) = Some n1 \<and> map_of (nodes s) (dst_id a) = Some n2 \<longrightarrow>
      (type_id n1 = base_feature_type_id s \<and> type_id n2 = secondary_feature_type_id s \<longrightarrow>
         check_connection (node_name n1) (node_name n2) (arc_check_operation arc_id a s)) \<and>
      (type_id n1 = secondary_feature_type_id s \<and> type_id n2 = base_feature_type_id s \<and>
       base_feature_type_id s \<noteq> secondary_feature_type_id s \<longrightarrow>
         check_connection (node_name n2) (node_name n1) (arc_check_operation arc_id a s))) \<and>
   (\<not> (truthy (src_id a) \<and> truthy (dst_id a)) \<longrightarrow> arc_check_operation arc_id a s = s) \<and>
   (check_connection b x s \<longrightarrow> check_connection b x (arc_check_operation arc_id a s)) \<and>
   reported (cell_check_operation g cid c s) b x =
     (reported s b x \<or>
      (b \<in> set (g c (base_feature s)) \<and> x \<in> set (g c (secondary_feature s)) \<and>
       \<not> check_connection b x s)) \<and>
   connections (cell_check_operation g cid c s) = connections s"
proof (intro conjI impI)
  assume "truthy (src_id a) \<and> truthy (dst_id a) \<and>
    map_of (nodes s) (src_id a) = Some n1 \<and> map_of (nodes s) (dst_id a) = Some n2"
    and "type_id n1 = base_feature_type_id s \<and> type_id n2 = secondary_feature_type_id s"
  then show "check_connection (node_name n1) (node_name n2) (arc_check_operation arc_id a s)"
    by (simp add: arc_check_operation_def set_connection_records)
next
  assume "truthy (src_id a) \<and> truthy (dst_id a) \<and>
    map_of (nodes s) (src_id a) = Some n1 \<and> map_of (nodes s) (dst_id a) = Some n2"
    and "type_id n1 = secondary_feature_type_id s \<and> type_id n2 = base_feature_type_id s \<and>
       base_feature_type_id s \<noteq> secondary_feature_type_id s"
  then show "check_connection (node_name n2) (node_name n1) (arc_check_operation arc_id a s)"
    by (simp add: arc_check_operation_def set_connection_records)
next
  assume "\<not> (truthy (src_id a) \<and> truthy (dst_id a))"
  then show "arc_check_operation arc_id a s = s"
    by (simp add: arc_check_falsy)
next
  assume "check_connection b x s"
  then show "check_connection b x (arc_check_operation arc_id a s)"
    by (rule arc_check_keeps)
next
  show "reported (cell_check_operation g cid c s) b x =
     (reported s b x \<or>
      (b \<in> set (g c (base_feature s)) \<and> x \<in> set (g c (secondary_feature s)) \<and>
       \<not> check_connection b x s))"
    using outer_scan [of "g c (secondary_feature s)" "g c (base_feature s)" s b x]
    by (simp add: cell_check_operation_def Let_def)
next
  show "connections (cell_check_operation g cid c s) = connections s"
    using outer_scan [of "g c (secondary_feature s)" "g c (base_feature s)" s b x]
    by (simp add: cell_check_operation_def Let_def)
qed

theorem superposition_connections_witness:
  "check_connection ''CatchA'' ''GW1''
     (arc_check_operation (1::nat) \<lparr>src_id = PInt 20, dst_id = PInt 10\<rparr>
        \<lparr>base_feature = ''catchment'', secondary_feature = ''groundwater'',
       base_feature_type_id = 21, secondary_feature_type_id = 3,
       connections = [],
       nodes = [(PInt 10, \<lparr>type_id = 21, node_name = ''CatchA''\<rparr>),
                (PInt 20, \<lparr>type_id = 3, node_name = ''GW1''\<rparr>)],
       connection_error = [], sc_errors = []\<rparr>) \<and>
   reported (cell_check_operation (\<lambda>c f. if f = ''catchment'' then [''CatchA''] else [''GW1'']) (1::nat) (5::nat)
        \<lparr>base_feature = ''catchment'', secondary_feature = ''groundwater'',
       base_feature_type_id = 21, secondary_feature_type_id = 3,
       connections = [],
       nodes = [(PInt 10, \<lparr>type_id = 21, node_name = ''CatchA''\<rparr>),
                (PInt 20, \<lparr>type_id = 3, node_name = ''GW1''\<rparr>)],
       connection_error = [], sc_errors = []\<rparr>) ''CatchA'' ''GW1'' \<and>
   \<not> reported (cell_check_operation (\<lambda>c f. if f = ''catchment'' then [''CatchA''] else [''GW1'']) (1::nat) (5::nat)
       (arc_check_operation (1::nat) \<lparr>src_id = PInt 20, dst_id = PInt 10\<rparr>
        \<lparr>base_feature = ''catchment'', secondary_feature = ''groundwater'',
       base_feature_type_id = 21, secondary_feature_type_id = 3,
       connections = [],
       nodes = [(PInt 10, \<lparr>type_id = 21, node_name = ''CatchA''\<rparr>),
                (PInt 20, \<lparr>type_id = 3, node_name = ''GW1''\<rparr>)],
       connection_error = [], sc_errors = []\<rparr>)) ''CatchA'' ''GW1'' \<and>
   arc_check_operation (2::nat) \<lparr>src_id = PNone, dst_id = PInt 10\<rparr>
        \<lparr>base_feature = ''catchment'', secondary_feature = ''groundwater'',
       base_feature_type_id = 21, secondary_feature_type_id = 3,
       connections = [],
       nodes = [(PInt 10, \<lparr>type_id = 21, node_name = ''CatchA''\<rparr>),
                (PInt 20, \<lparr>type_id = 3, node_name = ''GW1''\<rparr>)],
       connection_error = [], sc_errors = []\<rparr> =
        \<lparr>base_feature = ''catchment'', secondary_feature = ''groundwater'',
       base_feature_type_id = 21, secondary_feature_type_id = 3,
       connections = [],
       nodes = [(PInt 10, \<lparr>type_id = 21, node_name = ''CatchA''\<rparr>),
                (PInt 20, \<lparr>type_id = 3, node_name = ''GW1''\<rparr>)],
       connection_error = [], sc_errors = []\<rparr>"
proof -
  have falsy: "arc_check_operation (2::nat) \<lparr>src_id = PNone, dst_id = PInt 10\<rparr>
        \<lparr>base_feature = ''catchment'', secondary_feature = ''groundwater'',
       base_feature_type_id = 21, secondary_feature_type_id = 3,
       connections = [],
       nodes = [(PInt 10, \<lparr>type_id = 21, node_name = ''CatchA''\<rparr>),
                (PInt 20, \<lparr>type_id = 3, node_name = ''GW1''\<rparr>)],
       connection_error = [], sc_errors = []\<rparr> =
        \<lparr>base_feature = ''catchment'', secondary_feature = ''groundwater'',
       base_feature_type_id = 21, secondary_feature_type_id = 3,
       connections = [],
       nodes = [(PInt 10, \<lparr>type_id = 21, node_name = ''CatchA''\<rparr>),
                (PInt 20, \<lparr>type_id = 3, node_name = ''GW1''\<rparr>)],
       connection_error = [], sc_errors = []\<rparr>"
    using superposition_connections
      [where a = "\<lparr>src_id = PNone, dst_id = PInt 10\<rparr>"
         and s = "\<lparr>base_feature = ''catchment'', secondary_feature = ''groundwater'',
       base_feature_type_id = 21, secondary_feature_type_id = 3,
       connections = [],
       nodes = [(PInt 10, \<lparr>type_id = 21, node_name = ''CatchA''\<rparr>),
                (PInt 20, \<lparr>type_id = 3, node_name = ''GW1''\<rparr>)],
       connection_error = [], sc_errors = []\<rparr>"
         and ?n1.0 = "\<lparr>type_id = 3, node_name = ''GW1''\<rparr>"
         and ?n2.0 = "\<lparr>type_id = 21, node_name = ''CatchA''\<rparr>"
         and arc_id = "2::nat" and b = "''CatchA''" and x = "''GW1''"
         and g = "(\<lambda>c f. if f = ''catchment'' then [''CatchA''] else [''GW1''])" and c = "5::nat" and cid = "1::nat"]
    by simp
  have c: "check_connection ''CatchA'' ''GW1''
     (arc_check_operation (1::nat) \<lparr>src_id = PInt 20, dst_id = PInt 10\<rparr>
        \<lparr>base_feature = ''catchment'', secondary_feature = ''groundwater'',
       base_feature_type_id = 21, secondary_feature_type_id = 3,
       connections = [],
       nodes = [(PInt 10, \<lparr>type_id = 21, node_name = ''CatchA''\<rparr>),
                (PInt 20, \<lparr>type_id = 3, node_name = ''GW1''\<rparr>)],
       connection_error = [], sc_errors = []\<rparr>)"
    using superposition_connections
      [where a = "\<lparr>src_id = PInt 20, dst_id = PInt 10\<rparr>"
         and s = "\<lparr>base_feature = ''catchment'', secondary_feature = ''groundwater'',
       base_feature_type_id = 21, secondary_feature_type_id = 3,
       connections = [],
       nodes = [(PInt 10, \<lparr>type_id = 21, node_name = ''CatchA''\<rparr>),
                (PInt 20, \<lparr>type_id = 3, node_name = ''GW1''\<rparr>)],
       connection_error = [], sc_errors = []\<rparr>"
         and ?n1.0 = "\<lparr>type_id = 3, node_name = ''GW1''\<rparr>"
         and ?n2.0 = "\<lparr>type_id = 21, node_name = ''CatchA''\<rparr>"
         and arc_id = "1::nat" and b = "''CatchA''" and x = "''GW1''"
         and g = "(\<lambda>c f. if f = ''catchment'' then [''CatchA''] else [''GW1''])" and c = "5::nat" and cid = "1::nat"]
    by simp
  have n0: "\<not> check_connection ''CatchA'' ''GW1''
        \<lparr>base_feature = ''catchment'', secondary_feature = ''groundwater'',
       base_feature_type_id = 21, secondary_feature_type_id = 3,
       connections = [],
       nodes = [(PInt 10, \<lparr>type_id = 21, node_name = ''CatchA''\<rparr>),
                (PInt 20, \<lparr>type_id = 3, node_name = ''GW1''\<rparr>)],
       connection_error = [], sc_errors = []\<rparr>"
    by (simp add: check_connection_def)
  have r1: "\<not> reported (arc_check_operation (1::nat) \<lparr>src_id = PInt 20, dst_id = PInt 10\<rparr>
        \<lparr>base_feature = ''catchment'', secondary_feature = ''groundwater'',
       base_feature_type_id = 21, secondary_feature_type_id = 3,
       connections = [],
       nodes = [(PInt 10, \<lparr>type_id = 21, node_name = ''CatchA''\<rparr>),
                (PInt 20, \<lparr>type_id = 3, node_name = ''GW1''\<rparr>)],
       connection_error = [], sc_errors = []\<rparr>) ''CatchA'' ''GW1''"
    by (simp add: reported_def arc_check_operation_def set_connection_def)
  have before: "reported (cell_check_operation (\<lambda>c f. if f = ''catchment'' then [''CatchA''] else [''GW1'']) (1::nat) (5::nat)
        \<lparr>base_feature = ''catchment'', secondary_feature = ''groundwater'',
       base_feature_type_id = 21, secondary_feature_type_id = 3,
       connections = [],
       nodes = [(PInt 10, \<lparr>type_id = 21, node_name = ''CatchA''\<rparr>),
                (PInt 20, \<lparr>type_id = 3, node_name = ''GW1''\<rparr>)],
       connection_error = [], sc_errors = []\<rparr>) ''CatchA'' ''GW1''"
    using superposition_connections
      [where s = "\<lparr>base_feature = ''catchment'', secondary_feature = ''groundwater'',
       base_feature_type_id = 21, secondary_feature_type_id = 3,
       connections = [],
       nodes = [(PInt 10, \<lparr>type_id = 21, node_name = ''CatchA''\<rparr>),
                (PInt 20, \<lparr>type_id = 3, node_name = ''GW1''\<rparr>)],
       connection_error = [], sc_errors = []\<rparr>"
         and b = "''CatchA''" and x = "''GW1''"
         and g = "(\<lambda>c f. if f = ''catchment'' then [''CatchA''] else [''GW1''])" and c = "5::nat" and cid = "1::nat"
         and a = "\<lparr>src_id = PInt 20, dst_id = PInt 10\<rparr>" and arc_id = "1::nat"
         and ?n1.0 = "\<lparr>type_id = 3, node_name = ''GW1''\<rparr>"
         and ?n2.0 = "\<lparr>type_id = 21, node_name = ''CatchA''\<rparr>"] n0
    by simp
  have after: "\<not> reported (cell_check_operation (\<lambda>c f. if f = ''catchment'' then [''CatchA''] else [''GW1'']) (1::nat) (5::nat)
       (arc_check_operation (1::nat) \<lparr>src_id = PInt 20, dst_id = PInt 10\<rparr>
        \<lparr>base_feature = ''catchment'', secondary_feature = ''groundwater'',
       base_feature_type_id = 21, secondary_feature_type_id = 3,
       connections = [],
       nodes = [(PInt 10, \<lparr>type_id = 21, node_name = ''CatchA''\<rparr>),
                (PInt 20, \<lparr>type_id = 3, node_name = ''GW1''\<rparr>)],
       connection_error = [], sc_errors = []\<rparr>)) ''CatchA'' ''GW1''"
    using superposition_connections
      [where s = "arc_check_operation (1::nat) \<lparr>src_id = PInt 20, dst_id = PInt 10\<rparr>
        \<lparr>base_feature = ''catchment'', secondary_feature = ''groundwater'',
       base_feature_type_id = 21, secondary_feature_type_id = 3,
       connections = [],
       nodes = [(PInt 10, \<lparr>type_id = 21, node_name = ''CatchA''\<rparr>),
                (PInt 20, \<lparr>type_id = 3, node_name = ''GW1''\<rparr>)],
       connection_error = [], sc_errors = []\<rparr>"
         and b = "''CatchA''" and x = "''GW1''"
         and g = "(\<lambda>c f. if f = ''catchment'' then [''CatchA''] else [''GW1''])" and c = "5::nat" and cid = "1::nat"
         and a = "\<lparr>src_id = PInt 20, dst_id = PInt 10\<rparr>" and arc_id = "1::nat"
         and ?n1.0 = "\<lparr>type_id = 3, node_name = ''GW1''\<rparr>"
         and ?n2.0 = "\<lparr>type_id = 21, node_name = ''CatchA''\<rparr>"] c r1
    by simp
  show ?thesis using c before after falsy by simp
qed

text \<open>
  The claim as first stated fails for an element whose id is \<open>0\<close>. The check is
  created for catchments (type 21) and groundwater (type 3); \<open>node_init_operation\<close>
  collects the catchment \<open>CatchA\<close> under the id \<open>0\<close> and the groundwater element
  \<open>GW1\<close> under the id \<open>20\<close>. The arc from \<open>0\<close> to \<open>20\<close> joins one base-type and
  one secondary-type element, and both ids are among the collected nodes; it records no
  connection, and the scan of a cell holding both names reports the pair.
\<close>

theorem superposition_falsy_id_counterexample:
  "superposition_init ''catchment'' ''groundwater'' [(''catchment'', 21), (''groundwater'', 3)] =
     Inr \<lparr>base_feature = ''catchment'', secondary_feature = ''groundwater'',
        base_feature_type_id = 21, secondary_feature_type_id = 3,
        connections = [], nodes = [], connection_error = [], sc_errors = []\<rparr> \<and>
   map_of (nodes
     (node_init_operation (PInt 20) \<lparr>type_id = 3, node_name = ''GW1''\<rparr>
       (node_init_operation (PInt 0) \<lparr>type_id = 21, node_name = ''CatchA''\<rparr>
          \<lparr>base_feature = ''catchment'', secondary_feature = ''groundwater'',
        base_feature_type_id = 21, secondary_feature_type_id = 3,
        connections = [], nodes = [], connection_error = [], sc_errors = []\<rparr>))) (PInt 0) = Some \<lparr>type_id = 21, node_name = ''CatchA''\<rparr> \<and>
   map_of (nodes
     (node_init_operation (PInt 20) \<lparr>type_id = 3, node_name = ''GW1''\<rparr>
       (node_init_operation (PInt 0) \<lparr>type_id = 21, node_name = ''CatchA''\<rparr>
          \<lparr>base_feature = ''catchment'', secondary_feature = ''groundwater'',
        base_feature_type_id = 21, secondary_feature_type_id = 3,
        connections = [], nodes = [], connection_error = [], sc_errors = []\<rparr>))) (PInt 20) = Some \<lparr>type_id = 3, node_name = ''GW1''\<rparr> \<and>
   \<not> check_connection ''CatchA'' ''GW1''
     (arc_check_operation (1::nat) \<lparr>src_id = PInt 0, dst_id = PInt 20\<rparr>
     (node_init_operation (PInt 20) \<lparr>type_id = 3, node_name = ''GW1''\<rparr>
       (node_init_operation (PInt 0) \<lparr>type_id = 21, node_name = ''CatchA''\<rparr>
          \<lparr>base_feature = ''catchment'', secondary_feature = ''groundwater'',
        base_feature_type_id = 21, secondary_feature_type_id = 3,
        connections = [], nodes = [], connection_error = [], sc_errors = []\<rparr>))) \<and>
   reported (cell_check_operation (\<lambda>c f. if f = ''catchment'' then [''CatchA''] else [''GW1'']) (1::nat) (5::nat)
     (arc_check_operation (1::nat) \<lparr>src_id = PInt 0, dst_id = PInt 20\<rparr>
     (node_init_operation (PInt 20) \<lparr>type_id = 3, node_name = ''GW1''\<rparr>
       (node_init_operation (PInt 0) \<lparr>type_id = 21, node_name = ''CatchA''\<rparr>
          \<lparr>base_feature = ''catchment'', secondary_feature = ''groundwater'',
        base_feature_type_id = 21, secondary_feature_type_id = 3,
        connections = [], nodes = [], connection_error = [], sc_errors = []\<rparr>)))) ''CatchA'' ''GW1''"
  by (simp add: superposition_init_def getitem_def node_init_operation_def
        arc_check_operation_def check_connection_def cell_check_operation_def
        add_error_def reported_def)

end
